theory Spec2Isabelle
  imports Main "HOL-Library.Word"
begin

section \<open>A ledger of bank accounts\<close>

text \<open>
  The program is a single-process ledger: accounts with a balance and a list of
  transactions, an engine (\<^verbatim>\<open>AccountServiceImpl\<close>) bound to one account that deposits,
  withdraws and transfers, and a storage interface with one backend, a map in memory.
  The flat file and the layered packages of the repository hold the same code, embedded
  here once. Of the interactive menu (\<^verbatim>\<open>BankApp\<close>) only the check of a typed amount is
  embedded; the rest of the menu, \<^verbatim>\<open>NewAccount\<close> and \<^verbatim>\<open>GetAllAccounts\<close> are outside.
\<close>

section \<open>The float64 type of the amounts and balances\<close>

text \<open>
  Amounts and balances are Go \<^verbatim>\<open>float64\<close> values (IEEE 754 binary64). The engine
  uses four of its operations: \<^verbatim>\<open>+=\<close>, \<^verbatim>\<open>-=\<close>, \<^verbatim>\<open><=\<close> and \<^verbatim>\<open><\<close>. A value is a
  NaN, an infinity with its sign, or a finite number given by its three fields: the sign
  (\<open>True\<close> is negative), the biased exponent (below 2047) and the fraction (below
  \<open>2 ^ 52\<close>). Every finite value is a whole multiple of the smallest subnormal
  \<open>2 ^ -1074\<close>; \<open>mag\<close> is that multiple, so sums and differences of finite values are
  computed exactly on integers and rounded once, to nearest, ties to even, as the
  hardware does. All NaNs are one value: the program never looks at a payload. The
  datatype does not bound the two fields; the facts that need the bounds assume them.
\<close>

datatype float64 = NaN | Infty bool | Num bool nat nat

definition mag :: "nat \<Rightarrow> nat \<Rightarrow> nat" where
  "mag e f = (if e = 0 then f else (2 ^ 52 + f) * 2 ^ (e - 1))"

fun ival :: "float64 \<Rightarrow> int" where
  "ival (Num s e f) = (if s then - int (mag e f) else int (mag e f))"
| "ival _ = 0"

function bits :: "nat \<Rightarrow> nat" where
  "bits n = (if n = 0 then 0 else Suc (bits (n div 2)))"
  by pat_completeness auto
termination
  by (relation "measure id") auto

declare bits.simps [simp del]

definition round_mag :: "bool \<Rightarrow> nat \<Rightarrow> float64" where
  "round_mag s n =
     (if n < 2 ^ 52 then Num s 0 n
      else if n < 2 ^ 53 then Num s 1 (n - 2 ^ 52)
      else
        let k = bits n - 53;
            q = n div 2 ^ k;
            r = n mod 2 ^ k;
            half = 2 ^ (k - 1);
            q' = (if half < r \<or> (r = half \<and> odd q) then q + 1 else q);
            k' = (if q' = 2 ^ 53 then k + 1 else k);
            m = (if q' = 2 ^ 53 then 2 ^ 52 else q')
        in if 2047 \<le> k' + 1 then Infty s else Num s (k' + 1) (m - 2 ^ 52))"

fun fneg :: "float64 \<Rightarrow> float64" where
  "fneg NaN = NaN"
| "fneg (Infty s) = Infty (\<not> s)"
| "fneg (Num s e f) = Num (\<not> s) e f"

fun fadd :: "float64 \<Rightarrow> float64 \<Rightarrow> float64" where
  "fadd NaN y = NaN"
| "fadd x NaN = NaN"
| "fadd (Infty s) (Infty t) = (if s = t then Infty s else NaN)"
| "fadd (Infty s) (Num t e f) = Infty s"
| "fadd (Num s e f) (Infty t) = Infty t"
| "fadd (Num s e f) (Num t e' f') =
     (let z = ival (Num s e f) + ival (Num t e' f')
      in if z = 0 then Num (s \<and> t) 0 0 else round_mag (z < 0) (nat \<bar>z\<bar>))"

definition fsub :: "float64 \<Rightarrow> float64 \<Rightarrow> float64" where
  "fsub x y = fadd x (fneg y)"

fun flt :: "float64 \<Rightarrow> float64 \<Rightarrow> bool" where
  "flt NaN y = False"
| "flt x NaN = False"
| "flt (Infty s) (Infty t) = (s \<and> \<not> t)"
| "flt (Infty s) (Num t e f) = s"
| "flt (Num s e f) (Infty t) = (\<not> t)"
| "flt (Num s e f) (Num t e' f') = (ival (Num s e f) < ival (Num t e' f'))"

fun fle :: "float64 \<Rightarrow> float64 \<Rightarrow> bool" where
  "fle NaN y = False"
| "fle x NaN = False"
| "fle (Infty s) (Infty t) = (s \<or> \<not> t)"
| "fle (Infty s) (Num t e f) = s"
| "fle (Num s e f) (Infty t) = (\<not> t)"
| "fle (Num s e f) (Num t e' f') = (ival (Num s e f) \<le> ival (Num t e' f'))"

text \<open>
  The literal \<^verbatim>\<open>0\<close> of the source, and a few amounts used in the examples: 40, 60,
  100, 1000, \<open>-1\<close>, 1, 99, 140 and \<open>2 ^ 53\<close>.
\<close>

definition f0 :: float64 where "f0 = Num False 0 0"
definition f40 :: float64 where "f40 = Num False 1028 0x4000000000000"
definition f60 :: float64 where "f60 = Num False 1028 0xE000000000000"
definition f100 :: float64 where "f100 = Num False 1029 0x9000000000000"
definition f1000 :: float64 where "f1000 = Num False 1032 0xF400000000000"
definition fminus1 :: float64 where "fminus1 = Num True 1023 0"
definition f1 :: float64 where "f1 = Num False 1023 0"
definition f99 :: float64 where "f99 = Num False 1029 0x8C00000000000"
definition f140 :: float64 where "f140 = Num False 1030 0x1800000000000"
definition f2p53 :: float64 where "f2p53 = Num False 1076 0"

section \<open>Ledger entities\<close>

text \<open>
  \<^verbatim>\<open>time.Time\<close> is a count of nanoseconds since the Unix epoch. \<^verbatim>\<open>UnixNano\<close> returns
  it as an \<^verbatim>\<open>int64\<close> (it wraps outside the 64-bit range), and the verb \<^verbatim>\<open>%d\<close> prints
  that number in decimal.
\<close>

type_synonym Time = int

definition UnixNano :: "Time \<Rightarrow> 64 word" where
  "UnixNano t = word_of_int t"

definition digit_char :: "nat \<Rightarrow> char" where
  "digit_char d = char_of (48 + d)"

function show_nat :: "nat \<Rightarrow> string" where
  "show_nat n = (if n < 10 then [digit_char n] else show_nat (n div 10) @ [digit_char (n mod 10)])"
  by pat_completeness auto
termination
  by (relation "measure id") auto

declare show_nat.simps [simp del]

definition show_int :: "int \<Rightarrow> string" where
  "show_int i = (if i < 0 then CHR ''-'' # show_nat (nat (- i)) else show_nat (nat i))"

definition Sprintf_d :: "64 word \<Rightarrow> string" where
  "Sprintf_d v = show_int (sint v)"

text \<open>
  The two formatting functions of the Go library that the engine calls and whose code
  is not part of the repository: the verb \<^verbatim>\<open>%.2f\<close> and \<^verbatim>\<open>Time.Format\<close> with the
  layout \<^verbatim>\<open>2006-01-02 15:04:05\<close>. They are parameters of the model.
\<close>

record fmt =
  f2 :: "float64 \<Rightarrow> string"
  layout :: "Time \<Rightarrow> string"

type_synonym TransactionType = string

definition DepositTransaction :: TransactionType where
  "DepositTransaction = ''DEPOSIT''"

definition WithdrawTransaction :: TransactionType where
  "WithdrawTransaction = ''WITHDRAW''"

definition TransferTransaction :: TransactionType where
  "TransferTransaction = ''TRANSFER''"

record Transaction =
  ID :: string
  Type :: TransactionType
  Amount :: float64
  Timestamp :: Time
  Message :: string

record Account =
  ID :: string
  OwnerName :: string
  Balance :: float64
  Transactions :: "Transaction list"
  CreatedAt :: Time

datatype error =
  ErrInsufficientFunds
| ErrInvalidAmount
| ErrAccountNotFound
| ErrSameAccountTransfer
| OtherError string

text \<open>The texts of the messages and of the statement, as the UTF-8 bytes of the source.\<close>

definition msg_empty_history :: string where
  "msg_empty_history =
     [CHR 0xD0, CHR 0x98, CHR 0xD1, CHR 0x81, CHR 0xD1, CHR 0x82, CHR 0xD0, CHR 0xBE,
      CHR 0xD1, CHR 0x80, CHR 0xD0, CHR 0xB8, CHR 0xD1, CHR 0x8F, CHR 0x20, CHR 0xD1,
      CHR 0x82, CHR 0xD1, CHR 0x80, CHR 0xD0, CHR 0xB0, CHR 0xD0, CHR 0xBD, CHR 0xD0,
      CHR 0xB7, CHR 0xD0, CHR 0xB0, CHR 0xD0, CHR 0xBA, CHR 0xD1, CHR 0x86, CHR 0xD0,
      CHR 0xB8, CHR 0xD0, CHR 0xB9, CHR 0x20, CHR 0xD0, CHR 0xBF, CHR 0xD1, CHR 0x83,
      CHR 0xD1, CHR 0x81, CHR 0xD1, CHR 0x82, CHR 0xD0, CHR 0xB0]"

definition msg_deposit :: string where
  "msg_deposit =
     [CHR 0xD0, CHR 0x9F, CHR 0xD0, CHR 0xBE, CHR 0xD0, CHR 0xBF, CHR 0xD0, CHR 0xBE,
      CHR 0xD0, CHR 0xBB, CHR 0xD0, CHR 0xBD, CHR 0xD0, CHR 0xB5, CHR 0xD0, CHR 0xBD,
      CHR 0xD0, CHR 0xB8, CHR 0xD0, CHR 0xB5, CHR 0x20, CHR 0xD1, CHR 0x81, CHR 0xD1,
      CHR 0x87, CHR 0xD0, CHR 0xB5, CHR 0xD1, CHR 0x82, CHR 0xD0, CHR 0xB0, CHR 0x20,
      CHR 0xD0, CHR 0xBD, CHR 0xD0, CHR 0xB0, CHR 0x20]"

definition msg_withdraw :: string where
  "msg_withdraw =
     [CHR 0xD0, CHR 0xA1, CHR 0xD0, CHR 0xBD, CHR 0xD1, CHR 0x8F, CHR 0xD1, CHR 0x82,
      CHR 0xD0, CHR 0xB8, CHR 0xD0, CHR 0xB5, CHR 0x20, CHR 0xD1, CHR 0x81, CHR 0xD1,
      CHR 0x80, CHR 0xD0, CHR 0xB5, CHR 0xD0, CHR 0xB4, CHR 0xD1, CHR 0x81, CHR 0xD1,
      CHR 0x82, CHR 0xD0, CHR 0xB2, CHR 0x20, CHR 0xD0, CHR 0xBD, CHR 0xD0, CHR 0xB0,
      CHR 0x20]"

definition msg_transfer_to :: string where
  "msg_transfer_to =
     [CHR 0xD0, CHR 0x9F, CHR 0xD0, CHR 0xB5, CHR 0xD1, CHR 0x80, CHR 0xD0, CHR 0xB5,
      CHR 0xD0, CHR 0xB2, CHR 0xD0, CHR 0xBE, CHR 0xD0, CHR 0xB4, CHR 0x20, CHR 0xD1,
      CHR 0x81, CHR 0xD1, CHR 0x87, CHR 0xD0, CHR 0xB5, CHR 0xD1, CHR 0x82, CHR 0xD1,
      CHR 0x83, CHR 0x20]"

definition msg_transfer_from :: string where
  "msg_transfer_from =
     [CHR 0xD0, CHR 0x9F, CHR 0xD0, CHR 0xB5, CHR 0xD1, CHR 0x80, CHR 0xD0, CHR 0xB5,
      CHR 0xD0, CHR 0xB2, CHR 0xD0, CHR 0xBE, CHR 0xD0, CHR 0xB4, CHR 0x20, CHR 0xD0,
      CHR 0xBE, CHR 0xD1, CHR 0x82, CHR 0x20, CHR 0xD1, CHR 0x81, CHR 0xD1, CHR 0x87,
      CHR 0xD0, CHR 0xB5, CHR 0xD1, CHR 0x82, CHR 0xD0, CHR 0xB0, CHR 0x20]"

definition msg_na :: string where
  "msg_na =
     [CHR 0x20, CHR 0xD0, CHR 0xBD, CHR 0xD0, CHR 0xB0, CHR 0x20]"

definition stmt_title :: string where
  "stmt_title =
     [CHR 0xD0, CHR 0x92, CHR 0xD1, CHR 0x8B, CHR 0xD0, CHR 0xBF, CHR 0xD0, CHR 0xB8,
      CHR 0xD1, CHR 0x81, CHR 0xD0, CHR 0xBA, CHR 0xD0, CHR 0xB0, CHR 0x20, CHR 0xD0,
      CHR 0xBF, CHR 0xD0, CHR 0xBE, CHR 0x20, CHR 0xD1, CHR 0x81, CHR 0xD1, CHR 0x87,
      CHR 0xD0, CHR 0xB5, CHR 0xD1, CHR 0x82, CHR 0xD1, CHR 0x83, CHR 0x3A, CHR 0x0A]"

definition stmt_owner :: string where
  "stmt_owner =
     [CHR 0xD0, CHR 0x92, CHR 0xD0, CHR 0xBB, CHR 0xD0, CHR 0xB0, CHR 0xD0, CHR 0xB4,
      CHR 0xD0, CHR 0xB5, CHR 0xD0, CHR 0xBB, CHR 0xD0, CHR 0xB5, CHR 0xD1, CHR 0x86,
      CHR 0x3A, CHR 0x20]"

definition stmt_id :: string where
  "stmt_id =
     [CHR 0x49, CHR 0x44, CHR 0x20, CHR 0xD1, CHR 0x81, CHR 0xD1, CHR 0x87, CHR 0xD0,
      CHR 0xB5, CHR 0xD1, CHR 0x82, CHR 0xD0, CHR 0xB0, CHR 0x3A, CHR 0x20]"

definition stmt_balance :: string where
  "stmt_balance =
     [CHR 0xD0, CHR 0xA2, CHR 0xD0, CHR 0xB5, CHR 0xD0, CHR 0xBA, CHR 0xD1, CHR 0x83,
      CHR 0xD1, CHR 0x89, CHR 0xD0, CHR 0xB8, CHR 0xD0, CHR 0xB9, CHR 0x20, CHR 0xD0,
      CHR 0xB1, CHR 0xD0, CHR 0xB0, CHR 0xD0, CHR 0xBB, CHR 0xD0, CHR 0xB0, CHR 0xD0,
      CHR 0xBD, CHR 0xD1, CHR 0x81, CHR 0x3A, CHR 0x20]"

definition stmt_rule :: string where
  "stmt_rule = replicate 40 CHR ''='' @ [CHR 0x0A]"

section \<open>Pointers, the heap and the world\<close>

text \<open>
  Accounts are shared through pointers (\<^verbatim>\<open>*Account\<close>): the engine, the caller and the
  in-memory backend hold the same object. The heap maps the addresses of the live
  objects to their current state; dereferencing \<open>Null\<close> (Go's \<^verbatim>\<open>nil\<close>) panics. The
  transaction slice of an account is a list: no two accounts of the program share a
  backing array. A method either panics or returns.

  The world is the heap, the state of the storage backend, and the wall clock: \<open>now w n\<close>
  is what the \<open>n\<close>-th call of \<^verbatim>\<open>time.Now()\<close> returns.
\<close>

datatype ptr = Null | Addr nat

datatype 'a outcome = Panic | Return 'a

type_synonym heap = "nat \<Rightarrow> Account option"

record 'st world =
  heap :: heap
  backend :: 'st
  now :: "nat \<Rightarrow> Time"
  ticks :: nat

definition deref :: "heap \<Rightarrow> ptr \<Rightarrow> Account option" where
  "deref h p = (case p of Null \<Rightarrow> None | Addr n \<Rightarrow> h n)"

definition update_acc :: "ptr \<Rightarrow> (Account \<Rightarrow> Account) \<Rightarrow> 'st world \<Rightarrow> 'st world" where
  "update_acc p g w =
     (case p of Null \<Rightarrow> w | Addr n \<Rightarrow> w\<lparr>heap := (heap w)(n := map_option g (heap w n))\<rparr>)"

definition time_Now :: "'st world \<Rightarrow> Time \<times> 'st world" where
  "time_Now w = (now w (ticks w), w\<lparr>ticks := Suc (ticks w)\<rparr>)"

section \<open>The Storage Port\<close>

text \<open>
  The engine calls one method of the \<^verbatim>\<open>Storage\<close> interface, \<^verbatim>\<open>SaveAccount\<close>. A backend
  is that method: it is given the pointer, reads the heap, and returns an error or
  \<open>None\<close> (Go's \<^verbatim>\<open>nil\<close>) with its new state. A backend does not write to the account,
  and the storage of an engine is never the \<^verbatim>\<open>nil\<close> interface.
\<close>

type_synonym 'st Storage = "ptr \<Rightarrow> heap \<Rightarrow> 'st \<Rightarrow> (error option \<times> 'st) outcome"

record 'st AccountServiceImpl =
  account :: ptr
  storage :: "'st Storage"

definition NewAccountService :: "ptr \<Rightarrow> 'st Storage \<Rightarrow> 'st AccountServiceImpl" where
  "NewAccountService acc st = \<lparr>account = acc, storage = st\<rparr>"

definition SaveAccount :: "'st AccountServiceImpl \<Rightarrow> ptr \<Rightarrow> 'st world \<Rightarrow> (error option \<times> 'st world) outcome" where
  "SaveAccount s p w =
     (case storage s p (heap w) (backend w) of
        Panic \<Rightarrow> Panic
      | Return (err, st) \<Rightarrow> Return (err, w\<lparr>backend := st\<rparr>))"

section \<open>The account transaction engine\<close>

text \<open>
  The three mutating methods, in the order of the source. \<^verbatim>\<open>Deposit\<close>:
  \<^verbatim>\<open>
  func (s *AccountServiceImpl) Deposit(amount float64) error {
      if amount <= 0 { return errors.ErrInvalidAmount }
      s.account.Balance += amount
      transaction := models.Transaction{
          ID:        fmt.Sprintf("TX%d", time.Now().UnixNano()),
          Type:      models.DepositTransaction,
          Amount:    amount,
          Timestamp: time.Now(),
          Message:   fmt.Sprintf(msg_deposit + "%.2f", amount),
      }
      s.account.Transactions = append(s.account.Transactions, transaction)
      return s.storage.SaveAccount(s.account)
  }
  \<close>
  The amount is checked before the account is touched, so a refused amount returns even
  when the account pointer is \<^verbatim>\<open>nil\<close>; the first dereference is the update of the
  balance. The fields of the record are evaluated in order: the clock is read once for
  the identifier and once more for the timestamp.
\<close>

definition Deposit ::
  "fmt \<Rightarrow> 'st AccountServiceImpl \<Rightarrow> float64 \<Rightarrow> 'st world \<Rightarrow> (error option \<times> 'st world) outcome" where
  "Deposit F s amount w =
     (if fle amount f0 then Return (Some ErrInvalidAmount, w)
      else case deref (heap w) (account s) of
        None \<Rightarrow> Panic
      | Some a0 \<Rightarrow>
          let w1 = update_acc (account s) (\<lambda>a. a\<lparr>Balance := fadd (Balance a) amount\<rparr>) w;
              (t1, w2) = time_Now w1;
              (t2, w3) = time_Now w2;
              transaction = \<lparr>Transaction.ID = ''TX'' @ Sprintf_d (UnixNano t1),
                Type = DepositTransaction, Amount = amount, Timestamp = t2,
                Message = msg_deposit @ f2 F amount\<rparr>;
              w4 = update_acc (account s)
                     (\<lambda>a. a\<lparr>Transactions := Transactions a @ [transaction]\<rparr>) w3
          in SaveAccount s (account s) w4)"

text \<open>
  \<^verbatim>\<open>Withdraw\<close> has one more check, \<^verbatim>\<open>if s.account.Balance < amount\<close>, made after the
  check of the amount; it then subtracts, appends a \<^verbatim>\<open>WITHDRAW\<close> record and saves.
\<close>

definition Withdraw ::
  "fmt \<Rightarrow> 'st AccountServiceImpl \<Rightarrow> float64 \<Rightarrow> 'st world \<Rightarrow> (error option \<times> 'st world) outcome" where
  "Withdraw F s amount w =
     (if fle amount f0 then Return (Some ErrInvalidAmount, w)
      else case deref (heap w) (account s) of
        None \<Rightarrow> Panic
      | Some a0 \<Rightarrow>
          if flt (Balance a0) amount then Return (Some ErrInsufficientFunds, w)
          else
            let w1 = update_acc (account s) (\<lambda>a. a\<lparr>Balance := fsub (Balance a) amount\<rparr>) w;
                (t1, w2) = time_Now w1;
                (t2, w3) = time_Now w2;
                transaction = \<lparr>Transaction.ID = ''TX'' @ Sprintf_d (UnixNano t1),
                  Type = WithdrawTransaction, Amount = amount, Timestamp = t2,
                  Message = msg_withdraw @ f2 F amount\<rparr>;
                w4 = update_acc (account s)
                       (\<lambda>a. a\<lparr>Transactions := Transactions a @ [transaction]\<rparr>) w3
            in SaveAccount s (account s) w4)"

text \<open>
  \<^verbatim>\<open>Transfer\<close> makes three checks in this order:
  \<^verbatim>\<open>
      if amount <= 0 { return errors.ErrInvalidAmount }
      if s.account.Balance < amount { return errors.ErrInsufficientFunds }
      if s.account.ID == to.ID { return errors.ErrSameAccountTransfer }
  \<close>
  then debits the source and appends its record, credits the target and appends its
  record, and saves the two accounts:
  \<^verbatim>\<open>
      if err := s.storage.SaveAccount(s.account); err != nil { return err }
      return s.storage.SaveAccount(to)
  \<close>
  Every step reads the heap as the steps before have left it.
\<close>

definition Transfer ::
  "fmt \<Rightarrow> 'st AccountServiceImpl \<Rightarrow> ptr \<Rightarrow> float64 \<Rightarrow> 'st world \<Rightarrow> (error option \<times> 'st world) outcome" where
  "Transfer F s to amount w =
     (if fle amount f0 then Return (Some ErrInvalidAmount, w)
      else case deref (heap w) (account s) of
        None \<Rightarrow> Panic
      | Some a0 \<Rightarrow>
         (if flt (Balance a0) amount then Return (Some ErrInsufficientFunds, w)
          else (case deref (heap w) to of
            None \<Rightarrow> Panic
          | Some b0 \<Rightarrow>
             (if Account.ID a0 = Account.ID b0 then Return (Some ErrSameAccountTransfer, w)
              else
                let w1 = update_acc (account s)
                           (\<lambda>a. a\<lparr>Balance := fsub (Balance a) amount\<rparr>) w;
                    (t1, w2) = time_Now w1;
                    (t2, w3) = time_Now w2;
                    transaction = \<lparr>Transaction.ID = ''TX'' @ Sprintf_d (UnixNano t1),
                      Type = TransferTransaction, Amount = amount, Timestamp = t2,
                      Message = msg_transfer_to @ Account.ID b0 @ msg_na @ f2 F amount\<rparr>;
                    w4 = update_acc (account s)
                           (\<lambda>a. a\<lparr>Transactions := Transactions a @ [transaction]\<rparr>) w3;
                    w5 = update_acc to (\<lambda>b. b\<lparr>Balance := fadd (Balance b) amount\<rparr>) w4;
                    (t3, w6) = time_Now w5;
                    (t4, w7) = time_Now w6;
                    toTransaction = \<lparr>Transaction.ID = ''TX'' @ Sprintf_d (UnixNano t3),
                      Type = TransferTransaction, Amount = amount, Timestamp = t4,
                      Message = msg_transfer_from @ Account.ID a0 @ msg_na @ f2 F amount\<rparr>;
                    w8 = update_acc to
                           (\<lambda>b. b\<lparr>Transactions := Transactions b @ [toTransaction]\<rparr>) w7
                in (case SaveAccount s (account s) w8 of
                     Panic \<Rightarrow> Panic
                   | Return (Some err, w9) \<Rightarrow> Return (Some err, w9)
                   | Return (None, w9) \<Rightarrow> SaveAccount s to w9)))))"

definition GetBalance :: "'st AccountServiceImpl \<Rightarrow> 'st world \<Rightarrow> (float64 \<times> 'st world) outcome" where
  "GetBalance s w =
     (case deref (heap w) (account s) of
        None \<Rightarrow> Panic
      | Some a \<Rightarrow> Return (Balance a, w))"

text \<open>
  \<^verbatim>\<open>GetStatement\<close> returns the fixed message when \<^verbatim>\<open>len(s.account.Transactions) == 0\<close>.
  Otherwise it writes to a \<^verbatim>\<open>strings.Builder\<close>, here the string written so far: the
  title, a rule of 40 \<^verbatim>\<open>=\<close>, the owner, the identifier, a rule, then in a loop over the
  transactions
  \<^verbatim>\<open>
      sb.WriteString(fmt.Sprintf("%s | %s | %.2f | %s" + newline,
          tx.Timestamp.Format("2006-01-02 15:04:05"), tx.Type, tx.Amount, tx.Message))
  \<close>
  (the loop is \<open>write_transactions\<close>), then a rule and the balance. It assigns to nothing.
\<close>

definition tx_line :: "fmt \<Rightarrow> Transaction \<Rightarrow> string" where
  "tx_line F tx =
     layout F (Timestamp tx) @ '' | '' @ Type tx @ '' | '' @ f2 F (Amount tx) @ '' | '' @
     Message tx @ [CHR 0x0A]"

fun write_transactions :: "fmt \<Rightarrow> Transaction list \<Rightarrow> string \<Rightarrow> string" where
  "write_transactions F [] sb = sb"
| "write_transactions F (tx # txs) sb = write_transactions F txs (sb @ tx_line F tx)"

definition GetStatement :: "fmt \<Rightarrow> 'st AccountServiceImpl \<Rightarrow> 'st world \<Rightarrow> (string \<times> 'st world) outcome" where
  "GetStatement F s w =
     (case deref (heap w) (account s) of
        None \<Rightarrow> Panic
      | Some a \<Rightarrow>
          if length (Transactions a) = 0 then Return (msg_empty_history, w)
          else
            let sb0 = [];
                sb1 = sb0 @ stmt_title;
                sb2 = sb1 @ stmt_rule;
                sb3 = sb2 @ (stmt_owner @ OwnerName a @ [CHR 0x0A]);
                sb4 = sb3 @ (stmt_id @ Account.ID a @ [CHR 0x0A]);
                sb5 = sb4 @ stmt_rule;
                sb6 = write_transactions F (Transactions a) sb5;
                sb7 = sb6 @ stmt_rule;
                sb8 = sb7 @ (stmt_balance @ f2 F (Balance a) @ [CHR 0x0A])
            in Return (sb8, w))"

section \<open>The amount read by the menu\<close>

text \<open>
  The menu reads every amount through \<^verbatim>\<open>readAmount\<close>:
  \<^verbatim>\<open>
      amount, err := strconv.ParseFloat(input, 64)
      if err != nil || amount <= 0 { ...; return 0, ErrInvalidAmount }
      return amount, nil
  \<close>
  \<^verbatim>\<open>strconv.ParseFloat\<close> belongs to the Go library; its result is the argument of the
  model. It returns a NaN for the input \<^verbatim>\<open>NaN\<close> and an infinity for \<^verbatim>\<open>Inf\<close>, both
  without an error. The amount is compared only when there is no error, as \<^verbatim>\<open>||\<close> does.
\<close>

definition readAmount :: "float64 \<times> error option \<Rightarrow> float64 \<times> error option" where
  "readAmount parsed =
     (case parsed of (amount, err) \<Rightarrow>
        if (case err of Some e \<Rightarrow> True | None \<Rightarrow> fle amount f0)
        then (f0, Some ErrInvalidAmount)
        else (amount, None))"

section \<open>The in-memory storage backend\<close>

text \<open>
  \<^verbatim>\<open>MemoryStorage\<close> is a map from identifiers to account pointers,
  \<^verbatim>\<open>accounts map[string]*models.Account\<close>. \<^verbatim>\<open>SaveAccount\<close> is
  \<^verbatim>\<open>s.accounts[account.ID] = account; return nil\<close>: it stores the pointer it is given, not
  a copy of the account. \<^verbatim>\<open>LoadAccount\<close> returns the stored pointer, or \<^verbatim>\<open>nil\<close> and
  \<^verbatim>\<open>ErrAccountNotFound\<close> when the identifier is not a key of the map.
\<close>

type_synonym MemoryStorage = "string \<Rightarrow> ptr option"

definition NewMemoryStorage :: MemoryStorage where
  "NewMemoryStorage = Map.empty"

definition MemoryStorage_SaveAccount :: "MemoryStorage Storage" where
  "MemoryStorage_SaveAccount p h accounts =
     (case deref h p of
        None \<Rightarrow> Panic
      | Some a \<Rightarrow> Return (None, accounts(Account.ID a \<mapsto> p)))"

definition MemoryStorage_LoadAccount :: "string \<Rightarrow> MemoryStorage \<Rightarrow> ptr \<times> error option" where
  "MemoryStorage_LoadAccount accountID accounts =
     (case accounts accountID of
        None \<Rightarrow> (Null, Some ErrAccountNotFound)
      | Some p \<Rightarrow> (p, None))"

section \<open>Sequences of requests and the balance invariant\<close>

text \<open>
  A caller issues requests one after the other, each through an engine bound to some
  account. \<open>perform_all\<close> runs a list of requests and gives the final world when every
  one of them returned without an error. \<open>balances_nonneg\<close> is the invariant of the
  data model, \<^verbatim>\<open>balance >= 0\<close> for every account on the heap, with the comparison of
  the code; \<open>is_number\<close> holds of the finite float64 values.
\<close>

datatype 'st request =
  ReqDeposit "'st AccountServiceImpl" float64
| ReqWithdraw "'st AccountServiceImpl" float64
| ReqTransfer "'st AccountServiceImpl" ptr float64

fun request_amount :: "'st request \<Rightarrow> float64" where
  "request_amount (ReqDeposit s amount) = amount"
| "request_amount (ReqWithdraw s amount) = amount"
| "request_amount (ReqTransfer s to amount) = amount"

fun perform :: "fmt \<Rightarrow> 'st request \<Rightarrow> 'st world \<Rightarrow> (error option \<times> 'st world) outcome" where
  "perform F (ReqDeposit s amount) w = Deposit F s amount w"
| "perform F (ReqWithdraw s amount) w = Withdraw F s amount w"
| "perform F (ReqTransfer s to amount) w = Transfer F s to amount w"

fun perform_all :: "fmt \<Rightarrow> 'st request list \<Rightarrow> 'st world \<Rightarrow> 'st world option" where
  "perform_all F [] w = Some w"
| "perform_all F (r # rs) w =
     (case perform F r w of
        Return (None, w') \<Rightarrow> perform_all F rs w'
      | _ \<Rightarrow> None)"

fun is_number :: "float64 \<Rightarrow> bool" where
  "is_number (Num s e f) = True"
| "is_number _ = False"

fun request_account :: "'st request \<Rightarrow> ptr" where
  "request_account (ReqDeposit s amount) = account s"
| "request_account (ReqWithdraw s amount) = account s"
| "request_account (ReqTransfer s to amount) = account s"

definition balances_nonneg :: "heap \<Rightarrow> bool" where
  "balances_nonneg h = (\<forall>n a. h n = Some a \<longrightarrow> fle f0 (Balance a))"

text \<open>
  \<open>no_negative_balance\<close> is the weaker invariant that no balance is below 0; a NaN is not
  below 0. \<open>rounded z r\<close> says how a float64 result \<open>r\<close> stands to the exact number
  \<open>z\<close> it was computed for, both in units of \<open>2 ^ -1074\<close>: \<open>r\<close> is \<open>z\<close> itself when
  \<open>z\<close> is a float64 value, \<open>r\<close> is finite when \<open>z\<close> is within the finite range, and a
  finite \<open>r\<close> is off by at most half a unit of the last of the 53 bits kept.
\<close>

definition no_negative_balance :: "heap \<Rightarrow> bool" where
  "no_negative_balance h = (\<forall>n a. h n = Some a \<longrightarrow> \<not> flt (Balance a) f0)"

definition rounded :: "int \<Rightarrow> float64 \<Rightarrow> bool" where
  "rounded z r =
     ((\<forall>u e f. f < 2 ^ 52 \<and> e < 2047 \<and> ival (Num u e f) = z \<longrightarrow> is_number r \<and> ival r = z) \<and>
      (\<bar>z\<bar> \<le> int (mag 2046 (2 ^ 52 - 1)) \<longrightarrow> is_number r) \<and>
      (is_number r \<longrightarrow> 2 * \<bar>ival r - z\<bar> \<le> 2 ^ (bits (nat \<bar>z\<bar>) - 53)))"

section \<open>Example worlds\<close>

text \<open>
  Two accounts at the addresses 10 and 20, both saved in a \<^verbatim>\<open>MemoryStorage\<close>, a clock
  that advances by one nanosecond per reading, and a clock that is stuck (a coarse
  clock read several times within one tick). \<open>RejectingStorage\<close> is a backend that
  reports an I/O error for one identifier and accepts every other account. \<open>acc_D\<close> is
  an account with the balance \<open>2 ^ 53\<close>, the first whole number whose successor is not a
  float64 value, and \<open>acc_C\<close> an account with two transactions.
\<close>

definition fmt0 :: fmt where
  "fmt0 = \<lparr>f2 = (\<lambda>x. ''0.00''), layout = (\<lambda>t. ''2006-01-02 15:04:05'')\<rparr>"

definition acc_A :: Account where
  "acc_A = \<lparr>Account.ID = ''ACC1'', OwnerName = ''A'', Balance = f100, Transactions = [],
     CreatedAt = 1\<rparr>"

definition acc_B :: Account where
  "acc_B = \<lparr>Account.ID = ''ACC2'', OwnerName = ''B'', Balance = f0, Transactions = [],
     CreatedAt = 2\<rparr>"

definition heap0 :: heap where
  "heap0 = (\<lambda>n. None)(10 \<mapsto> acc_A, 20 \<mapsto> acc_B)"

definition accounts0 :: MemoryStorage where
  "accounts0 = NewMemoryStorage(''ACC1'' \<mapsto> Addr 10, ''ACC2'' \<mapsto> Addr 20)"

definition world0 :: "MemoryStorage world" where
  "world0 = \<lparr>heap = heap0, backend = accounts0, now = (\<lambda>n. 1000 + int n), ticks = 0\<rparr>"

definition world_stuck :: "MemoryStorage world" where
  "world_stuck = \<lparr>heap = heap0, backend = accounts0, now = (\<lambda>n. 1000), ticks = 0\<rparr>"

definition svc_A :: "MemoryStorage AccountServiceImpl" where
  "svc_A = NewAccountService (Addr 10) MemoryStorage_SaveAccount"

definition RejectingStorage :: "string \<Rightarrow> unit Storage" where
  "RejectingStorage bad p h st =
     (case deref h p of
        None \<Rightarrow> Panic
      | Some a \<Rightarrow>
          if Account.ID a = bad then Return (Some (OtherError ''input/output error''), st)
          else Return (None, st))"

definition world_rej :: "unit world" where
  "world_rej = \<lparr>heap = heap0, backend = (), now = (\<lambda>n. 1000 + int n), ticks = 0\<rparr>"

definition tx_1 :: Transaction where
  "tx_1 = \<lparr>Transaction.ID = ''TX1'', Type = DepositTransaction, Amount = f100, Timestamp = 5,
     Message = ''first''\<rparr>"

definition tx_2 :: Transaction where
  "tx_2 = \<lparr>Transaction.ID = ''TX2'', Type = WithdrawTransaction, Amount = f40, Timestamp = 6,
     Message = ''second''\<rparr>"

definition acc_D :: Account where
  "acc_D = \<lparr>Account.ID = ''ACC4'', OwnerName = ''D'', Balance = f2p53, Transactions = [],
     CreatedAt = 4\<rparr>"

definition acc_C :: Account where
  "acc_C = \<lparr>Account.ID = ''ACC3'', OwnerName = ''C'', Balance = f60,
     Transactions = [tx_1, tx_2], CreatedAt = 3\<rparr>"

section \<open>Facts about float64\<close>

text \<open>
  Comparisons with a NaN are false and sums with a NaN are NaN; \<open><\<close> excludes \<open>\<ge>\<close>.
\<close>

lemma flt_not_fle: "flt x y \<Longrightarrow> \<not> fle y x"
  by (cases x; cases y) auto

lemma fle_flt_not_fle: "fle x y \<Longrightarrow> flt y z \<Longrightarrow> \<not> fle z x"
  by (cases x; cases y; cases z) (auto split: if_splits)

lemma NaN_right [simp]:
  "fadd x NaN = NaN" "fsub x NaN = NaN" "\<not> fle x NaN" "\<not> flt x NaN"
  by (cases x; simp add: fsub_def)+

lemma number_pos: "is_number b \<Longrightarrow> \<not> fle b f0 \<Longrightarrow> flt f0 b"
  by (cases b) (auto simp: f0_def)

lemma above_not_neg_is_positive: "\<not> flt b f0 \<Longrightarrow> flt b amount \<Longrightarrow> \<not> fle amount f0"
  by (cases b; cases amount) (auto simp: f0_def mag_def split: if_splits)

lemma number_checks:
  "is_number amount \<Longrightarrow> is_number b \<Longrightarrow> \<not> fle amount f0 \<Longrightarrow> \<not> flt b amount \<Longrightarrow>
   flt f0 amount \<and> fle amount b"
  by (cases amount; cases b) (auto simp: f0_def)

text \<open>
  Rounding keeps the sign, so a sum of a value \<open>\<ge> 0\<close> and a positive one is
  \<open>\<ge> 0\<close>, and so is a difference \<open>a - b\<close> with \<open>a \<ge> b > 0\<close> and \<open>b\<close> finite.
\<close>

lemma round_mag_cases: "round_mag s n = Infty s \<or> (\<exists>e f. round_mag s n = Num s e f)"
  by (simp add: round_mag_def Let_def)

lemma fle_f0_round_mag: "fle f0 (round_mag False n)"
  using round_mag_cases [of False n] by (auto simp: f0_def mag_def)

lemma fadd_nonneg:
  assumes "fle f0 a" and "flt f0 b"
  shows "fle f0 (fadd a b)"
proof (cases a; cases b)
  fix s e f t e' f'
  assume a: "a = Num s e f" and b: "b = Num t e' f'"
  from assms a b have "0 \<le> ival (Num s e f)" and "0 < ival (Num t e' f')"
    by (simp_all add: f0_def mag_def)
  then have "0 < ival (Num s e f) + ival (Num t e' f')" by linarith
  then show ?thesis
    unfolding a b by (simp add: Let_def fle_f0_round_mag del: ival.simps)
qed (use assms in \<open>auto simp: f0_def\<close>)

lemma fsub_nonneg:
  assumes "fle f0 a" and "\<not> flt a b" and "\<not> fle b f0" and "is_number b"
  shows "fle f0 (fsub a b)"
proof (cases a; cases b)
  fix s e f t e' f'
  assume a: "a = Num s e f" and b: "b = Num t e' f'"
  from assms a b have pos: "0 < ival (Num t e' f')" and ge: "ival (Num t e' f') \<le> ival (Num s e f)"
    by (simp_all add: f0_def mag_def)
  have n: "ival (Num (\<not> t) e' f') = - ival (Num t e' f')" by simp
  from pos ge have s: "\<not> s" by (auto split: if_splits)
  show ?thesis
  proof (cases "ival (Num s e f) = ival (Num t e' f')")
    case True
    then show ?thesis
      unfolding a b fsub_def using s by (simp add: n Let_def f0_def mag_def del: ival.simps)
  next
    case False
    with ge have "0 < ival (Num s e f) + ival (Num (\<not> t) e' f')" unfolding n by linarith
    then show ?thesis
      unfolding a b fsub_def by (simp add: Let_def fle_f0_round_mag del: ival.simps)
  qed
qed (use assms in \<open>auto simp: f0_def fsub_def\<close>)

lemma not_neg_round_mag: "\<not> flt (round_mag False n) f0"
  using round_mag_cases [of False n] by (auto simp: f0_def mag_def)

lemma not_neg_fadd: "\<not> flt a f0 \<Longrightarrow> \<not> fle b f0 \<Longrightarrow> \<not> flt (fadd a b) f0"
proof (cases a; cases b)
  fix s e f t e' f'
  assume a: "a = Num s e f" and b: "b = Num t e' f'" and h: "\<not> flt a f0" "\<not> fle b f0"
  define n where "n = nat \<bar>ival (Num s e f) + ival (Num t e' f')\<bar>"
  from a b h have "0 \<le> ival (Num s e f)" and "0 < ival (Num t e' f')"
    by (simp_all add: f0_def mag_def)
  then have "0 < ival (Num s e f) + ival (Num t e' f')" by linarith
  then have "fadd a b = round_mag False n"
    unfolding a b n_def by (simp add: Let_def del: ival.simps)
  then show "\<not> flt (fadd a b) f0" by (simp add: not_neg_round_mag)
qed (auto simp: f0_def)

lemma not_neg_fsub:
  "\<not> flt a f0 \<Longrightarrow> \<not> fle b f0 \<Longrightarrow> \<not> flt a b \<Longrightarrow> \<not> flt (fsub a b) f0"
proof (cases a; cases b)
  fix s e f t e' f'
  assume a: "a = Num s e f" and b: "b = Num t e' f'"
    and h: "\<not> flt a f0" "\<not> fle b f0" "\<not> flt a b"
  define n where "n = nat \<bar>ival (Num s e f) + ival (Num (\<not> t) e' f')\<bar>"
  from a b h have pos: "0 < ival (Num t e' f')" and ge: "ival (Num t e' f') \<le> ival (Num s e f)"
    by (simp_all add: f0_def mag_def)
  have m: "ival (Num (\<not> t) e' f') = - ival (Num t e' f')" by simp
  show "\<not> flt (fsub a b) f0"
  proof (cases "ival (Num s e f) = ival (Num t e' f')")
    case True
    then have "fsub a b = Num (s \<and> \<not> t) 0 0"
      unfolding a b fsub_def by (simp add: m Let_def del: ival.simps)
    then show ?thesis by (simp add: f0_def mag_def)
  next
    case False
    with ge have "0 < ival (Num s e f) + ival (Num (\<not> t) e' f')" unfolding m by linarith
    then have "fsub a b = round_mag False n"
      unfolding a b fsub_def n_def by (simp add: Let_def del: ival.simps)
    then show ?thesis by (simp add: not_neg_round_mag)
  qed
qed (auto simp: f0_def fsub_def)

text \<open>
  \<open>bits n\<close> is the length of \<open>n\<close> in binary. A magnitude that a float64 holds
  is rounded to itself; a magnitude \<open>q * 2 ^ k + r\<close> with a 53-bit \<open>q\<close> is rounded on the
  remainder \<open>r\<close>; a magnitude below \<open>2 ^ 53\<close> is kept, and a larger one moves by at
  most half a unit of its last kept bit. Two sums of the hardware as checks:
  \<open>2 ^ 53 + 1 = 2 ^ 53\<close> (a tie, to the even neighbour) and
  \<open>0.1 + 0.2 = 0.30000000000000004\<close>.
\<close>

lemma bits_between: "2 ^ j \<le> n \<Longrightarrow> n < 2 ^ Suc j \<Longrightarrow> bits n = Suc j"
proof (induction j arbitrary: n)
  case 0
  then have "n = 1" by simp
  then show ?case by (simp add: bits.simps [of "Suc 0"] bits.simps [of 0])
next
  case (Suc j)
  from Suc.prems have "2 ^ j \<le> n div 2" and "n div 2 < 2 ^ Suc j" and "n \<noteq> 0"
    by auto
  with Suc.IH [of "n div 2"] show ?case
    by (simp add: bits.simps [of n])
qed

lemma bits_bounds: "0 < n \<Longrightarrow> 2 ^ (bits n - 1) \<le> n \<and> n < 2 ^ bits n"
proof (induction n rule: bits.induct)
  case (1 n)
  show ?case
  proof (cases "n div 2 = 0")
    case True
    with "1.prems" have "n = 1" by presburger
    then show ?thesis by (simp add: bits.simps [of "Suc 0"] bits.simps [of 0])
  next
    case False
    with "1.IH" "1.prems" have ih: "2 ^ (bits (n div 2) - 1) \<le> n div 2" "n div 2 < 2 ^ bits (n div 2)"
      by simp_all
    from False have b: "0 < bits (n div 2)" by (simp add: bits.simps [of "n div 2"])
    have eq: "bits n = Suc (bits (n div 2))" using "1.prems" by (simp add: bits.simps [of n])
    from ih(1) have "2 * 2 ^ (bits (n div 2) - 1) \<le> n" by presburger
    moreover from b have "(2::nat) * 2 ^ (bits (n div 2) - 1) = 2 ^ bits (n div 2)"
      by (cases "bits (n div 2)") simp_all
    moreover from ih(2) have "n < 2 * 2 ^ bits (n div 2)" by presburger
    ultimately show ?thesis by (simp add: eq)
  qed
qed

lemma bits_le: "n < 2 ^ j \<Longrightarrow> bits n \<le> j"
proof (cases "n = 0")
  case True
  then show ?thesis by (simp add: bits.simps [of 0])
next
  case False
  assume lt: "n < 2 ^ j"
  from False have "0 < n" by simp
  from bits_bounds [OF this] have "2 ^ (bits n - 1) \<le> n" by simp
  from this lt have p: "(2::nat) ^ (bits n - 1) < 2 ^ j" by (rule le_less_trans)
  have "bits n - 1 < j"
  proof (rule power_less_imp_less_exp)
    show "(1::nat) < 2" by simp
    show "(2::nat) ^ (bits n - 1) < 2 ^ j" by (fact p)
  qed
  then show ?thesis by simp
qed

lemma round_mag_exact:
  assumes f: "f < 2 ^ 52" and e: "e < 2047"
  shows "round_mag s (mag e f) = Num s e f"
proof -
  consider "e = 0" | "e = 1" | "2 \<le> e" by linarith
  then show ?thesis
  proof cases
    case 1
    with f show ?thesis by (simp add: round_mag_def mag_def)
  next
    case 2
    with f show ?thesis by (simp add: round_mag_def mag_def)
  next
    case 3
    define k where "k = e - 1"
    define n where "n = (2 ^ 52 + f) * 2 ^ k"
    from 3 have k: "1 \<le> k" and ek: "e = Suc k" by (simp_all add: k_def)
    have lo: "2 ^ (52 + k) \<le> n"
      by (simp add: n_def power_add)
    have hi: "n < 2 ^ Suc (52 + k)"
    proof -
      from f have "(2 ^ 52 + f) * 2 ^ k < (2 ^ 53) * 2 ^ k" by simp
      then show ?thesis by (simp add: n_def power_add)
    qed
    from bits_between [OF lo hi] have b: "bits n - 53 = k" by simp
    have q: "n div 2 ^ k = 2 ^ 52 + f" and r: "n mod 2 ^ k = 0"
      by (simp_all add: n_def)
    from lo have big: "\<not> n < 2 ^ 52" "\<not> n < 2 ^ 53"
    proof -
      have "(2::nat) ^ 53 \<le> 2 ^ (52 + k)" using k by (intro power_increasing) simp_all
      with lo have "2 ^ 53 \<le> n" by linarith
      then show "\<not> n < 2 ^ 52" "\<not> n < 2 ^ 53" by simp_all
    qed
    have m: "mag e f = n" using 3 by (simp add: mag_def n_def k_def)
    from f have ne: "2 ^ 52 + f \<noteq> (2::nat) ^ 53" by simp
    show ?thesis
      unfolding m round_mag_def
      using big e ne by (simp add: b q r Let_def ek del: power_Suc)
  qed
qed

lemma round_mag_split:
  assumes n: "n = q * 2 ^ k + r" and r: "r < 2 ^ k" and lo: "2 ^ 52 \<le> q" and hi: "q < 2 ^ 53"
    and k: "0 < k"
  shows "round_mag s n =
    (if 2 ^ (k - 1) < r \<or> (r = 2 ^ (k - 1) \<and> odd q)
     then (if q + 1 = 2 ^ 53
           then (if 2047 \<le> k + 2 then Infty s else Num s (k + 2) 0)
           else (if 2047 \<le> k + 1 then Infty s else Num s (k + 1) (q + 1 - 2 ^ 52)))
     else (if 2047 \<le> k + 1 then Infty s else Num s (k + 1) (q - 2 ^ 52)))"
proof -
  have l: "2 ^ (52 + k) \<le> n"
  proof -
    from lo have "2 ^ 52 * 2 ^ k \<le> q * 2 ^ k" by (rule mult_right_mono) simp
    then have "2 ^ 52 * 2 ^ k \<le> q * 2 ^ k + r" by linarith
    then show ?thesis by (simp only: n power_add)
  qed
  have h: "n < 2 ^ Suc (52 + k)"
  proof -
    from hi have "q + 1 \<le> 2 ^ 53" by simp
    then have "(q + 1) * 2 ^ k \<le> 2 ^ 53 * 2 ^ k" by (rule mult_right_mono) simp
    moreover from r have "n < (q + 1) * 2 ^ k" by (simp add: n)
    ultimately have "n < 2 ^ 53 * 2 ^ k" by linarith
    then show ?thesis by (simp add: power_add)
  qed
  from bits_between [OF l h] have b: "bits n - 53 = k" by simp
  from r have d: "n div 2 ^ k = q" and m: "n mod 2 ^ k = r" by (simp_all add: n)
  have "(2::nat) ^ 53 \<le> 2 ^ (52 + k)" using k by (intro power_increasing) simp_all
  with l have big: "\<not> n < 2 ^ 52" "\<not> n < 2 ^ 53" by simp_all
  from hi have ne: "q \<noteq> 2 ^ 53" by simp
  show ?thesis
    unfolding round_mag_def using big ne by (simp add: b d m Let_def)
qed

lemma round_mag_small:
  "n < 2 ^ 53 \<Longrightarrow> \<exists>e f. round_mag s n = Num s e f \<and> mag e f = n"
  by (simp add: round_mag_def mag_def)

lemma round_mag_half_ulp:
  assumes big: "2 ^ 53 \<le> n" and res: "round_mag s n = Num t e f"
  shows "t = s \<and> 2 * \<bar>int (mag e f) - int n\<bar> \<le> int (2 ^ (bits n - 53)) \<and>
    f < 2 ^ 52 \<and> 0 < e \<and> e < 2047"
proof -
  define k where "k = bits n - 53"
  define p :: nat where "p = 2 ^ k"
  define h :: nat where "h = 2 ^ (k - 1)"
  define q where "q = n div p"
  define r where "r = n mod p"
  define qp where "qp = q * p"
  from big have pos: "0 < n" by simp
  from bits_bounds [OF pos] have bb: "2 ^ (bits n - 1) \<le> n" "n < 2 ^ bits n" by simp_all
  have b54: "54 \<le> bits n"
  proof (rule ccontr)
    assume "\<not> 54 \<le> bits n"
    then have "bits n \<le> 53" by simp
    then have "(2::nat) ^ bits n \<le> 2 ^ 53" by (intro power_increasing) simp_all
    with bb(2) big show False by simp
  qed
  then have k: "0 < k" and bk: "bits n = 53 + k" "bits n - 1 = 52 + k" by (simp_all add: k_def)
  have n: "n = q * 2 ^ k + r" by (simp add: q_def r_def p_def div_mult_mod_eq)
  have r: "r < 2 ^ k" by (simp add: r_def p_def)
  have lo: "2 ^ 52 \<le> q"
  proof -
    from bb(1) have "2 ^ 52 * 2 ^ k \<le> n" by (simp add: bk power_add)
    then have "2 ^ 52 * 2 ^ k div 2 ^ k \<le> n div 2 ^ k" by (rule div_le_mono)
    then show ?thesis by (simp add: q_def p_def)
  qed
  have hi: "q < 2 ^ 53"
  proof -
    from bb(2) have "n < 2 ^ 53 * 2 ^ k" by (simp add: bk power_add)
    then show ?thesis by (simp add: q_def p_def less_mult_imp_div_less)
  qed
  have hh: "2 * h = p" using k by (cases k) (simp_all add: h_def p_def)
  have nq: "n = qp + r" and rp: "r < p" using n r by (simp_all add: qp_def p_def)
  have q1: "(q + 1) * 2 ^ k = qp + p" by (simp add: qp_def p_def)
  note split = round_mag_split [OF n r lo hi k, of s]
  have up_err: "2 * \<bar>int (qp + p) - int n\<bar> \<le> int p" if "h < r \<or> r = h \<and> odd q"
  proof -
    from that hh have "p \<le> 2 * r" by auto
    with rp show ?thesis unfolding nq by (auto simp: abs_if)
  qed
  have down_err: "2 * \<bar>int qp - int n\<bar> \<le> int p" if "\<not> (h < r \<or> r = h \<and> odd q)"
  proof -
    from that hh have "2 * r \<le> p" by auto
    then show ?thesis unfolding nq by (auto simp: abs_if)
  qed
  show ?thesis
  proof (cases "2 ^ (k - 1) < r \<or> (r = 2 ^ (k - 1) \<and> odd q)")
    case up: True
    show ?thesis
    proof (cases "q + 1 = 2 ^ 53")
      case True
      with up split res have e: "\<not> 2047 \<le> k + 2" "t = s" "e = k + 2" "f = 0"
        by (auto split: if_splits)
      have "mag e f = 2 ^ 53 * 2 ^ k" by (simp add: e mag_def)
      then have m: "mag e f = qp + p" unfolding q1 [symmetric] True by simp
      from up have "2 * \<bar>int (mag e f) - int n\<bar> \<le> int p"
        unfolding m by (intro up_err) (simp add: h_def)
      with e show ?thesis by (simp add: k_def p_def)
    next
      case False
      with up split res have e: "\<not> 2047 \<le> k + 1" "t = s" "e = k + 1" "f = q + 1 - 2 ^ 52"
        by (auto split: if_splits)
      from lo have "mag e f = (q + 1) * 2 ^ k" by (simp add: e mag_def)
      then have m: "mag e f = qp + p" unfolding q1 .
      from up have "2 * \<bar>int (mag e f) - int n\<bar> \<le> int p"
        unfolding m by (intro up_err) (simp add: h_def)
      moreover from hi False have "f < 2 ^ 52" by (simp add: e)
      ultimately show ?thesis using e by (simp add: k_def p_def)
    qed
  next
    case down: False
    with split res have e: "\<not> 2047 \<le> k + 1" "t = s" "e = k + 1" "f = q - 2 ^ 52"
      by (auto split: if_splits)
    from lo have m: "mag e f = qp" by (simp add: e mag_def qp_def p_def)
    from down have "2 * \<bar>int (mag e f) - int n\<bar> \<le> int p"
      unfolding m by (intro down_err) (simp add: h_def)
    moreover from hi have "f < 2 ^ 52" by (simp add: e)
    ultimately show ?thesis using e by (simp add: k_def p_def)
  qed
qed

lemma round_mag_error:
  assumes "round_mag s n = Num t e f"
  shows "t = s \<and> 2 * \<bar>int (mag e f) - int n\<bar> \<le> int (2 ^ (bits n - 53))"
proof (cases "n < 2 ^ 53")
  case True
  with round_mag_small [of n s] assms show ?thesis by auto
next
  case False
  then have "2 ^ 53 \<le> n" by simp
  from round_mag_half_ulp [OF this assms] show ?thesis by simp
qed

lemma round_mag_in_range:
  assumes "n \<le> mag 2046 (2 ^ 52 - 1)"
  shows "\<exists>e f. round_mag s n = Num s e f"
proof (cases "n < 2 ^ 53")
  case True
  with round_mag_small [of n s] show ?thesis by blast
next
  case False
  then have big: "2 ^ 53 \<le> n" by simp
  define k where "k = bits n - 53"
  define q where "q = n div 2 ^ k"
  define r where "r = n mod 2 ^ k"
  from big have pos: "0 < n" by simp
  from bits_bounds [OF pos] have bb: "2 ^ (bits n - 1) \<le> n" "n < 2 ^ bits n" by simp_all
  have b54: "54 \<le> bits n"
  proof (rule ccontr)
    assume "\<not> 54 \<le> bits n"
    then have "bits n \<le> 53" by simp
    then have "(2::nat) ^ bits n \<le> 2 ^ 53" by (intro power_increasing) simp_all
    with bb(2) big show False by simp
  qed
  then have k: "0 < k" and bk: "bits n = 53 + k" "bits n - 1 = 52 + k" by (simp_all add: k_def)
  have n: "n = q * 2 ^ k + r" by (simp add: q_def r_def div_mult_mod_eq)
  have r: "r < 2 ^ k" by (simp add: r_def)
  have lo: "2 ^ 52 \<le> q"
  proof -
    from bb(1) have "2 ^ 52 * 2 ^ k \<le> n" by (simp add: bk power_add)
    then have "2 ^ 52 * 2 ^ k div 2 ^ k \<le> n div 2 ^ k" by (rule div_le_mono)
    then show ?thesis by (simp add: q_def)
  qed
  have hi: "q < 2 ^ 53"
  proof -
    from bb(2) have "n < 2 ^ 53 * 2 ^ k" by (simp add: bk power_add)
    then show ?thesis by (simp add: q_def less_mult_imp_div_less)
  qed
  have top: "mag 2046 (2 ^ 52 - 1) = (2 ^ 53 - 1) * 2 ^ 2045" by (simp add: mag_def)
  have nlt: "n < 2 ^ (53 + 2045)"
  proof -
    have "(2 ^ 53 - 1) * 2 ^ 2045 < (2 ^ 53 :: nat) * 2 ^ 2045" by simp
    with assms top have "n < 2 ^ 53 * 2 ^ 2045" by linarith
    then show ?thesis by (simp only: power_add)
  qed
  from bits_le [OF nlt] bk have k45: "k \<le> 2045" by simp
  have carry: "k \<le> 2044" if up: "2 ^ (k - 1) < r \<or> (r = 2 ^ (k - 1) \<and> odd q)" and c: "q + 1 = 2 ^ 53"
  proof (rule ccontr)
    assume "\<not> k \<le> 2044"
    with k45 have k_eq: "k = 2045" by simp
    from c have "q = 2 ^ 53 - 1" by simp
    with n k_eq have "n = (2 ^ 53 - 1) * 2 ^ 2045 + r" by simp
    with assms top have "r = 0" by simp
    with up k show False by auto
  qed
  note split = round_mag_split [OF n r lo hi k, of s]
  show ?thesis
  proof (cases "2 ^ (k - 1) < r \<or> (r = 2 ^ (k - 1) \<and> odd q)")
    case up: True
    show ?thesis
    proof (cases "q + 1 = 2 ^ 53")
      case True
      from carry [OF up True] have "\<not> 2047 \<le> k + 2" by simp
      with up True have "round_mag s n = Num s (k + 2) 0"
        unfolding split by (simp only: if_True if_False refl)
      then show ?thesis by blast
    next
      case False
      from k45 have "\<not> 2047 \<le> k + 1" by simp
      with up False have "round_mag s n = Num s (k + 1) (q + 1 - 2 ^ 52)"
        unfolding split by (simp only: if_True if_False)
      then show ?thesis by blast
    qed
  next
    case False
    from k45 have "\<not> 2047 \<le> k + 1" by simp
    with False have "round_mag s n = Num s (k + 1) (q - 2 ^ 52)"
      unfolding split by (simp only: if_True if_False)
    then show ?thesis by blast
  qed
qed

lemma fadd_exact:
  assumes "ival (Num s e f) + ival (Num t e' f') = z" and "z \<noteq> 0"
    and "nat \<bar>z\<bar> = mag e'' f''" and "f'' < 2 ^ 52" and "e'' < 2047"
  shows "fadd (Num s e f) (Num t e' f') = Num (z < 0) e'' f''"
  using assms round_mag_exact [of f'' e'' "z < 0"]
  by (simp add: Let_def del: ival.simps)

lemma round_tie_to_even: "fadd (Num False 1076 0) (Num False 1023 0) = Num False 1076 0"
proof -
  have z: "nat \<bar>ival (Num False 1076 0) + ival (Num False 1023 0)\<bar> = 2 ^ 52 * 2 ^ 1075 + 2 ^ 1074"
    by (simp add: mag_def)
  have nz: "ival (Num False 1076 0) + ival (Num False 1023 0) > 0"
    by (simp add: mag_def)
  have "round_mag False (2 ^ 52 * 2 ^ 1075 + 2 ^ 1074) = Num False 1076 0"
    by (subst round_mag_split [where q = "2 ^ 52" and k = 1075 and r = "2 ^ 1074"]) simp_all
  with z nz show ?thesis
    by (simp add: Let_def del: ival.simps)
qed

lemma round_tenths:
  "fadd (Num False 1019 0x999999999999A) (Num False 1020 0x999999999999A) =
   Num False 1021 0x3333333333334"
proof -
  have z: "nat \<bar>ival (Num False 1019 0x999999999999A) + ival (Num False 1020 0x999999999999A)\<bar> =
      0x13333333333333 * 2 ^ 1020 + 2 ^ 1019"
    by (simp add: mag_def)
  have nz: "ival (Num False 1019 0x999999999999A) + ival (Num False 1020 0x999999999999A) > 0"
    by (simp add: mag_def)
  have "round_mag False (0x13333333333333 * 2 ^ 1020 + 2 ^ 1019) = Num False 1021 0x3333333333334"
    by (subst round_mag_split [where q = "0x13333333333333" and k = 1020 and r = "2 ^ 1019"]) simp_all
  with z nz show ?thesis
    by (simp add: Let_def del: ival.simps)
qed

text \<open>
  The sum and the difference of two finite values stand to the exact sum and the
  exact difference as \<open>rounded\<close> says.
\<close>

lemma fadd_rounded:
  assumes "is_number x" and "is_number y"
  shows "rounded (ival x + ival y) (fadd x y)"
proof -
  from assms obtain s e f t e' f' where x: "x = Num s e f" and y: "y = Num t e' f'"
    by (cases x; cases y) auto
  define z where "z = ival x + ival y"
  show ?thesis
  proof (cases "z = 0")
    case True
    then have "fadd x y = Num (s \<and> t) 0 0" unfolding z_def x y by (simp del: ival.simps)
    with True show ?thesis
      unfolding rounded_def z_def [symmetric] by (simp add: mag_def)
  next
    case False
    then have r: "fadd x y = round_mag (z < 0) (nat \<bar>z\<bar>)"
      unfolding z_def x y by (simp add: Let_def del: ival.simps)
    have sgn: "ival (Num (z < 0) e'' f'') = z" if "int (mag e'' f'') = \<bar>z\<bar>" for e'' f''
      using that by (simp add: abs_if split: if_splits)
    have a: "is_number (fadd x y) \<and> ival (fadd x y) = z"
      if "f'' < 2 ^ 52" "e'' < 2047" "ival (Num u e'' f'') = z" for u e'' f''
    proof -
      from that(3) have m: "nat \<bar>z\<bar> = mag e'' f''" by (auto split: if_splits)
      with round_mag_exact [OF that(1,2), of "z < 0"] r
      have "fadd x y = Num (z < 0) e'' f''" by simp
      moreover from m have "int (mag e'' f'') = \<bar>z\<bar>" by simp
      ultimately show ?thesis using sgn by simp
    qed
    have b: "is_number (fadd x y)" if "\<bar>z\<bar> \<le> int (mag 2046 (2 ^ 52 - 1))"
    proof -
      from that have "nat \<bar>z\<bar> \<le> mag 2046 (2 ^ 52 - 1)" by simp
      from round_mag_in_range [OF this, of "z < 0"] r show ?thesis by auto
    qed
    have c: "2 * \<bar>ival (fadd x y) - z\<bar> \<le> 2 ^ (bits (nat \<bar>z\<bar>) - 53)" if "is_number (fadd x y)"
    proof -
      from that r obtain u e'' f'' where n: "round_mag (z < 0) (nat \<bar>z\<bar>) = Num u e'' f''"
        by (cases "round_mag (z < 0) (nat \<bar>z\<bar>)") auto
      from round_mag_error [OF n]
      have u: "u = (z < 0)" and err: "2 * \<bar>int (mag e'' f'') - int (nat \<bar>z\<bar>)\<bar> \<le> int (2 ^ (bits (nat \<bar>z\<bar>) - 53))"
        by simp_all
      have "\<bar>ival (Num u e'' f'') - z\<bar> = \<bar>int (mag e'' f'') - int (nat \<bar>z\<bar>)\<bar>"
        unfolding u by (simp add: abs_if)
      with err show ?thesis unfolding r n by simp
    qed
    from a b c show ?thesis
      unfolding rounded_def z_def [symmetric] by blast
  qed
qed

lemma fneg_number: "is_number y \<Longrightarrow> is_number (fneg y) \<and> ival (fneg y) = - ival y"
  by (cases y) auto

lemma fsub_rounded:
  assumes "is_number x" and "is_number y"
  shows "rounded (ival x - ival y) (fsub x y)"
  using fadd_rounded [OF assms(1), of "fneg y"] fneg_number [OF assms(2)]
  by (simp add: fsub_def)

section \<open>Decimal printing is injective\<close>

lemma digit_char_inj: "a < 10 \<Longrightarrow> b < 10 \<Longrightarrow> digit_char a = digit_char b \<Longrightarrow> a = b"
  by (simp add: digit_char_def char_of_eq_iff take_bit_eq_mod)

lemma digit_char_not_minus: "d < 10 \<Longrightarrow> digit_char d \<noteq> CHR ''-''"
proof
  assume d: "d < 10" and "digit_char d = CHR ''-''"
  then have "of_char (digit_char d) = (of_char CHR ''-'' :: nat)" by simp
  with d show False by (simp add: digit_char_def)
qed

lemma show_nat_not_Nil: "show_nat n \<noteq> []"
  by (subst show_nat.simps) simp

lemma show_nat_digits: "c \<in> set (show_nat n) \<Longrightarrow> \<exists>d<10. c = digit_char d"
proof (induction n rule: show_nat.induct)
  case (1 n)
  show ?case
  proof (cases "n < 10")
    case True
    with "1.prems" show ?thesis by (subst (asm) show_nat.simps) auto
  next
    case False
    from "1.prems" have "c \<in> set (show_nat (n div 10)) \<or> c = digit_char (n mod 10)"
      by (subst (asm) show_nat.simps) (use False in auto)
    then show ?thesis
    proof
      assume "c \<in> set (show_nat (n div 10))"
      with False "1.IH" show ?thesis by blast
    next
      assume "c = digit_char (n mod 10)"
      moreover have "n mod 10 < 10" by simp
      ultimately show ?thesis by blast
    qed
  qed
qed

lemma show_nat_inj: "show_nat n = show_nat m \<Longrightarrow> n = m"
proof (induction n arbitrary: m rule: show_nat.induct)
  case (1 n)
  show ?case
  proof (cases "n < 10")
    case n: True
    show ?thesis
    proof (cases "m < 10")
      case True
      with n "1.prems" show ?thesis
        by (simp add: show_nat.simps [of n] show_nat.simps [of m] digit_char_inj)
    next
      case False
      with n "1.prems" show_nat_not_Nil [of "m div 10"] show ?thesis
        by (simp add: show_nat.simps [of n] show_nat.simps [of m] Cons_eq_append_conv)
    qed
  next
    case n: False
    show ?thesis
    proof (cases "m < 10")
      case True
      with n "1.prems" show_nat_not_Nil [of "n div 10"] show ?thesis
        by (simp add: show_nat.simps [of n] show_nat.simps [of m] append_eq_Cons_conv)
    next
      case False
      with n "1.prems" have "show_nat (n div 10) = show_nat (m div 10)"
        and "digit_char (n mod 10) = digit_char (m mod 10)"
        by (simp_all add: show_nat.simps [of n] show_nat.simps [of m])
      with n "1.IH" have "n div 10 = m div 10" and "n mod 10 = m mod 10"
        by (auto intro: digit_char_inj)
      then show ?thesis
        by (metis div_mult_mod_eq)
    qed
  qed
qed

lemma show_nat_no_minus: "show_nat n \<noteq> CHR ''-'' # cs"
proof
  assume "show_nat n = CHR ''-'' # cs"
  then have "CHR ''-'' \<in> set (show_nat n)" by simp
  then obtain d where "d < 10" and "CHR ''-'' = digit_char d"
    using show_nat_digits by blast
  then show False using digit_char_not_minus [of d] by simp
qed

lemma show_int_inj: "show_int i = show_int j \<Longrightarrow> i = j"
proof -
  assume e: "show_int i = show_int j"
  show ?thesis
  proof (cases "i < 0"; cases "j < 0")
    assume "i < 0" "j < 0"
    with e have "nat (- i) = nat (- j)" by (simp add: show_int_def show_nat_inj)
    with \<open>i < 0\<close> \<open>j < 0\<close> show ?thesis by simp
  next
    assume "i < 0" "\<not> j < 0"
    with e have "show_nat (nat j) = CHR ''-'' # show_nat (nat (- i))"
      by (simp add: show_int_def)
    then show ?thesis using show_nat_no_minus by blast
  next
    assume "\<not> i < 0" "j < 0"
    with e show ?thesis using show_nat_no_minus [of "nat i"] by (simp add: show_int_def)
  next
    assume "\<not> i < 0" "\<not> j < 0"
    with e have "nat i = nat j" by (simp add: show_int_def show_nat_inj)
    with \<open>\<not> i < 0\<close> \<open>\<not> j < 0\<close> show ?thesis by simp
  qed
qed

lemma Sprintf_d_inj: "Sprintf_d v = Sprintf_d v' \<Longrightarrow> v = v'"
  by (auto simp: Sprintf_d_def dest!: show_int_inj simp: word_eq_iff_signed [where ?'a = int])

section \<open>The operations on a request that passes the checks\<close>

text \<open>
  A request that passes the checks changes the heap and reads the clock twice per
  record, then hands the account to the backend: the result of the operation is the
  result of \<open>SaveAccount\<close> in the world changed so far.
\<close>

lemma Deposit_run:
  assumes "\<not> fle amount f0" and "account s = Addr n" and "heap w n = Some a"
  shows "Deposit F s amount w =
    SaveAccount s (Addr n)
      (w\<lparr>heap := (heap w)(n \<mapsto> a\<lparr>Balance := fadd (Balance a) amount,
              Transactions := Transactions a @
                [\<lparr>Transaction.ID = ''TX'' @ Sprintf_d (UnixNano (now w (ticks w))),
                  Type = DepositTransaction, Amount = amount,
                  Timestamp = now w (Suc (ticks w)),
                  Message = msg_deposit @ f2 F amount\<rparr>]\<rparr>),
         ticks := Suc (Suc (ticks w))\<rparr>)"
  using assms
  by (cases w) (simp add: Deposit_def deref_def update_acc_def time_Now_def Let_def)

lemma Withdraw_run:
  assumes "\<not> fle amount f0" and "account s = Addr n" and "heap w n = Some a"
    and "\<not> flt (Balance a) amount"
  shows "Withdraw F s amount w =
    SaveAccount s (Addr n)
      (w\<lparr>heap := (heap w)(n \<mapsto> a\<lparr>Balance := fsub (Balance a) amount,
              Transactions := Transactions a @
                [\<lparr>Transaction.ID = ''TX'' @ Sprintf_d (UnixNano (now w (ticks w))),
                  Type = WithdrawTransaction, Amount = amount,
                  Timestamp = now w (Suc (ticks w)),
                  Message = msg_withdraw @ f2 F amount\<rparr>]\<rparr>),
         ticks := Suc (Suc (ticks w))\<rparr>)"
  using assms
  by (cases w) (simp add: Withdraw_def deref_def update_acc_def time_Now_def Let_def)

lemma Transfer_run:
  assumes "\<not> fle amount f0" and "account s = Addr na" and "heap w na = Some a"
    and "\<not> flt (Balance a) amount" and "heap w nb = Some b"
    and "Account.ID a \<noteq> Account.ID b"
  shows "Transfer F s (Addr nb) amount w =
    (case SaveAccount s (Addr na)
      (w\<lparr>heap := (heap w)(na \<mapsto> a\<lparr>Balance := fsub (Balance a) amount,
              Transactions := Transactions a @
                [\<lparr>Transaction.ID = ''TX'' @ Sprintf_d (UnixNano (now w (ticks w))),
                  Type = TransferTransaction, Amount = amount,
                  Timestamp = now w (Suc (ticks w)),
                  Message = msg_transfer_to @ Account.ID b @ msg_na @ f2 F amount\<rparr>]\<rparr>,
            nb \<mapsto> b\<lparr>Balance := fadd (Balance b) amount,
              Transactions := Transactions b @
                [\<lparr>Transaction.ID = ''TX'' @ Sprintf_d (UnixNano (now w (Suc (Suc (ticks w))))),
                  Type = TransferTransaction, Amount = amount,
                  Timestamp = now w (Suc (Suc (Suc (ticks w)))),
                  Message = msg_transfer_from @ Account.ID a @ msg_na @ f2 F amount\<rparr>]\<rparr>),
         ticks := Suc (Suc (Suc (Suc (ticks w))))\<rparr>) of
       Panic \<Rightarrow> Panic
     | Return (Some err, w9) \<Rightarrow> Return (Some err, w9)
     | Return (None, w9) \<Rightarrow> SaveAccount s (Addr nb) w9)"
proof -
  from assms have "na \<noteq> nb" by auto
  with assms show ?thesis
    by (cases w) (simp add: Transfer_def deref_def update_acc_def time_Now_def Let_def fun_upd_twist)
qed

lemma write_transactions_concat:
  "write_transactions F txs sb = sb @ concat (map (tx_line F) txs)"
  by (induction txs arbitrary: sb) simp_all

section \<open>The balance invariant under finite amounts\<close>

text \<open>
  An operation whose amount is a finite number keeps every balance on the heap
  \<open>\<ge> 0\<close>, whether it succeeds, is refused, or fails in the backend; so does every
  sequence of successful requests with finite amounts.
\<close>

lemma balances_nonneg_upd:
  "balances_nonneg h \<Longrightarrow> fle f0 (Balance a) \<Longrightarrow> balances_nonneg (h(n \<mapsto> a))"
  by (simp add: balances_nonneg_def)

lemma balances_nonneg_SaveAccount:
  "SaveAccount s p w = Return (e, w') \<Longrightarrow> heap w' = heap w"
  by (auto simp: SaveAccount_def split: outcome.splits)

lemma Deposit_keeps_nonneg:
  assumes inv: "balances_nonneg (heap w)" and num: "is_number amount"
    and res: "Deposit F s amount w = Return (e, w')"
  shows "balances_nonneg (heap w')"
proof (cases "fle amount f0")
  case True
  with res inv show ?thesis by (simp add: Deposit_def)
next
  case False
  with res obtain n a where na: "account s = Addr n" "heap w n = Some a"
    by (auto simp: Deposit_def deref_def split: ptr.splits option.splits)
  from inv na have "fle f0 (Balance a)" by (simp add: balances_nonneg_def)
  with num False have "fle f0 (fadd (Balance a) amount)"
    by (simp add: fadd_nonneg number_pos)
  with inv have "balances_nonneg ((heap w)(n \<mapsto> a\<lparr>Balance := fadd (Balance a) amount,
              Transactions := Transactions a @
                [\<lparr>Transaction.ID = ''TX'' @ Sprintf_d (UnixNano (now w (ticks w))),
                  Type = DepositTransaction, Amount = amount,
                  Timestamp = now w (Suc (ticks w)),
                  Message = msg_deposit @ f2 F amount\<rparr>]\<rparr>))"
    by (simp add: balances_nonneg_upd)
  with res show ?thesis
    unfolding Deposit_run [OF False na]
    by (auto dest!: balances_nonneg_SaveAccount)
qed

lemma Withdraw_keeps_nonneg:
  assumes inv: "balances_nonneg (heap w)" and num: "is_number amount"
    and res: "Withdraw F s amount w = Return (e, w')"
  shows "balances_nonneg (heap w')"
proof (cases "fle amount f0")
  case True
  with res inv show ?thesis by (simp add: Withdraw_def)
next
  case False
  with res obtain n a where na: "account s = Addr n" "heap w n = Some a"
    by (auto simp: Withdraw_def deref_def split: ptr.splits option.splits)
  show ?thesis
  proof (cases "flt (Balance a) amount")
    case True
    with res inv False na show ?thesis by (simp add: Withdraw_def deref_def)
  next
    case funds: False
    from inv na have "fle f0 (Balance a)" by (simp add: balances_nonneg_def)
    with num False funds have "fle f0 (fsub (Balance a) amount)"
      by (simp add: fsub_nonneg)
    with inv have "balances_nonneg ((heap w)(n \<mapsto> a\<lparr>Balance := fsub (Balance a) amount,
              Transactions := Transactions a @
                [\<lparr>Transaction.ID = ''TX'' @ Sprintf_d (UnixNano (now w (ticks w))),
                  Type = WithdrawTransaction, Amount = amount,
                  Timestamp = now w (Suc (ticks w)),
                  Message = msg_withdraw @ f2 F amount\<rparr>]\<rparr>))"
      by (simp add: balances_nonneg_upd)
    with res show ?thesis
      unfolding Withdraw_run [OF False na funds]
      by (auto dest!: balances_nonneg_SaveAccount)
  qed
qed

lemma Transfer_keeps_nonneg:
  assumes inv: "balances_nonneg (heap w)" and num: "is_number amount"
    and res: "Transfer F s to amount w = Return (e, w')"
  shows "balances_nonneg (heap w')"
proof (cases "fle amount f0")
  case True
  with res inv show ?thesis by (simp add: Transfer_def)
next
  case False
  with res obtain na a where na: "account s = Addr na" "heap w na = Some a"
    by (auto simp: Transfer_def deref_def split: ptr.splits option.splits)
  show ?thesis
  proof (cases "flt (Balance a) amount")
    case True
    with res inv False na show ?thesis by (simp add: Transfer_def deref_def)
  next
    case funds: False
    with res False na obtain nb b where nb: "to = Addr nb" "heap w nb = Some b"
      by (auto simp: Transfer_def deref_def split: ptr.splits option.splits)
    show ?thesis
    proof (cases "Account.ID a = Account.ID b")
      case True
      with res inv False na funds nb show ?thesis by (simp add: Transfer_def deref_def)
    next
      case ids: False
      from inv na nb have "fle f0 (Balance a)" "fle f0 (Balance b)"
        by (simp_all add: balances_nonneg_def)
      with num False funds have "fle f0 (fsub (Balance a) amount)" "fle f0 (fadd (Balance b) amount)"
        by (simp_all add: fsub_nonneg fadd_nonneg number_pos)
      with inv have "balances_nonneg ((heap w)(na \<mapsto> a\<lparr>Balance := fsub (Balance a) amount,
              Transactions := Transactions a @
                [\<lparr>Transaction.ID = ''TX'' @ Sprintf_d (UnixNano (now w (ticks w))),
                  Type = TransferTransaction, Amount = amount,
                  Timestamp = now w (Suc (ticks w)),
                  Message = msg_transfer_to @ Account.ID b @ msg_na @ f2 F amount\<rparr>]\<rparr>,
            nb \<mapsto> b\<lparr>Balance := fadd (Balance b) amount,
              Transactions := Transactions b @
                [\<lparr>Transaction.ID = ''TX'' @ Sprintf_d (UnixNano (now w (Suc (Suc (ticks w))))),
                  Type = TransferTransaction, Amount = amount,
                  Timestamp = now w (Suc (Suc (Suc (ticks w)))),
                  Message = msg_transfer_from @ Account.ID a @ msg_na @ f2 F amount\<rparr>]\<rparr>))"
        by (simp add: balances_nonneg_upd)
      with res show ?thesis
        unfolding nb(1) Transfer_run [OF False na funds nb(2) ids]
        by (auto dest!: balances_nonneg_SaveAccount split: outcome.splits option.splits)
    qed
  qed
qed

lemma perform_keeps_nonneg:
  "balances_nonneg (heap w) \<Longrightarrow> is_number (request_amount r) \<Longrightarrow>
   perform F r w = Return (e, w') \<Longrightarrow> balances_nonneg (heap w')"
  by (cases r) (auto intro: Deposit_keeps_nonneg Withdraw_keeps_nonneg Transfer_keeps_nonneg)

lemma perform_all_keeps_nonneg:
  "balances_nonneg (heap w) \<Longrightarrow> \<forall>r \<in> set rs. is_number (request_amount r) \<Longrightarrow>
   perform_all F rs w = Some w' \<Longrightarrow> balances_nonneg (heap w')"
proof (induction rs arbitrary: w)
  case Nil
  then show ?case by simp
next
  case (Cons r rs)
  from Cons.prems(3) obtain w1 where r: "perform F r w = Return (None, w1)"
    and rs: "perform_all F rs w1 = Some w'"
    by (auto split: outcome.splits option.splits)
  from Cons.prems(1,2) r have "balances_nonneg (heap w1)"
    by (auto intro: perform_keeps_nonneg)
  with Cons.IH [OF _ _ rs] Cons.prems(2) show ?case by simp
qed

section \<open>No balance below zero, under every amount\<close>

text \<open>
  Whatever the amount, a NaN and the infinities included, no operation leaves a
  balance below 0: a balance that is not \<open>\<ge> 0\<close> afterwards is a NaN. The states the
  operations reach from new accounts, whose balance is 0, have no negative balance.
\<close>

lemma no_negative_balance_upd:
  "no_negative_balance h \<Longrightarrow> \<not> flt (Balance a) f0 \<Longrightarrow> no_negative_balance (h(n \<mapsto> a))"
  by (simp add: no_negative_balance_def)

lemma Deposit_no_negative:
  assumes inv: "no_negative_balance (heap w)"
    and res: "Deposit F s amount w = Return (e, w')"
  shows "no_negative_balance (heap w')"
proof (cases "fle amount f0")
  case True
  with res inv show ?thesis by (simp add: Deposit_def)
next
  case False
  with res obtain n a where na: "account s = Addr n" "heap w n = Some a"
    by (auto simp: Deposit_def deref_def split: ptr.splits option.splits)
  from inv na have "\<not> flt (Balance a) f0" by (simp add: no_negative_balance_def)
  with False have "\<not> flt (fadd (Balance a) amount) f0"
    by (simp add: not_neg_fadd)
  with inv have "no_negative_balance ((heap w)(n \<mapsto> a\<lparr>Balance := fadd (Balance a) amount,
              Transactions := Transactions a @
                [\<lparr>Transaction.ID = ''TX'' @ Sprintf_d (UnixNano (now w (ticks w))),
                  Type = DepositTransaction, Amount = amount,
                  Timestamp = now w (Suc (ticks w)),
                  Message = msg_deposit @ f2 F amount\<rparr>]\<rparr>))"
    by (simp add: no_negative_balance_upd)
  with res show ?thesis
    unfolding Deposit_run [OF False na]
    by (auto dest!: balances_nonneg_SaveAccount)
qed

lemma Withdraw_no_negative:
  assumes inv: "no_negative_balance (heap w)"
    and res: "Withdraw F s amount w = Return (e, w')"
  shows "no_negative_balance (heap w')"
proof (cases "fle amount f0")
  case True
  with res inv show ?thesis by (simp add: Withdraw_def)
next
  case False
  with res obtain n a where na: "account s = Addr n" "heap w n = Some a"
    by (auto simp: Withdraw_def deref_def split: ptr.splits option.splits)
  show ?thesis
  proof (cases "flt (Balance a) amount")
    case True
    with res inv False na show ?thesis by (simp add: Withdraw_def deref_def)
  next
    case funds: False
    from inv na have "\<not> flt (Balance a) f0" by (simp add: no_negative_balance_def)
    with False funds have "\<not> flt (fsub (Balance a) amount) f0"
      by (simp add: not_neg_fsub)
    with inv have "no_negative_balance ((heap w)(n \<mapsto> a\<lparr>Balance := fsub (Balance a) amount,
              Transactions := Transactions a @
                [\<lparr>Transaction.ID = ''TX'' @ Sprintf_d (UnixNano (now w (ticks w))),
                  Type = WithdrawTransaction, Amount = amount,
                  Timestamp = now w (Suc (ticks w)),
                  Message = msg_withdraw @ f2 F amount\<rparr>]\<rparr>))"
      by (simp add: no_negative_balance_upd)
    with res show ?thesis
      unfolding Withdraw_run [OF False na funds]
      by (auto dest!: balances_nonneg_SaveAccount)
  qed
qed

lemma Transfer_no_negative:
  assumes inv: "no_negative_balance (heap w)"
    and res: "Transfer F s to amount w = Return (e, w')"
  shows "no_negative_balance (heap w')"
proof (cases "fle amount f0")
  case True
  with res inv show ?thesis by (simp add: Transfer_def)
next
  case False
  with res obtain na a where na: "account s = Addr na" "heap w na = Some a"
    by (auto simp: Transfer_def deref_def split: ptr.splits option.splits)
  show ?thesis
  proof (cases "flt (Balance a) amount")
    case True
    with res inv False na show ?thesis by (simp add: Transfer_def deref_def)
  next
    case funds: False
    with res False na obtain nb b where nb: "to = Addr nb" "heap w nb = Some b"
      by (auto simp: Transfer_def deref_def split: ptr.splits option.splits)
    show ?thesis
    proof (cases "Account.ID a = Account.ID b")
      case True
      with res inv False na funds nb show ?thesis by (simp add: Transfer_def deref_def)
    next
      case ids: False
      from inv na nb have "\<not> flt (Balance a) f0" "\<not> flt (Balance b) f0"
        by (simp_all add: no_negative_balance_def)
      with False funds have "\<not> flt (fsub (Balance a) amount) f0" "\<not> flt (fadd (Balance b) amount) f0"
        by (simp_all add: not_neg_fsub not_neg_fadd)
      with inv have "no_negative_balance ((heap w)(na \<mapsto> a\<lparr>Balance := fsub (Balance a) amount,
              Transactions := Transactions a @
                [\<lparr>Transaction.ID = ''TX'' @ Sprintf_d (UnixNano (now w (ticks w))),
                  Type = TransferTransaction, Amount = amount,
                  Timestamp = now w (Suc (ticks w)),
                  Message = msg_transfer_to @ Account.ID b @ msg_na @ f2 F amount\<rparr>]\<rparr>,
            nb \<mapsto> b\<lparr>Balance := fadd (Balance b) amount,
              Transactions := Transactions b @
                [\<lparr>Transaction.ID = ''TX'' @ Sprintf_d (UnixNano (now w (Suc (Suc (ticks w))))),
                  Type = TransferTransaction, Amount = amount,
                  Timestamp = now w (Suc (Suc (Suc (ticks w)))),
                  Message = msg_transfer_from @ Account.ID a @ msg_na @ f2 F amount\<rparr>]\<rparr>))"
        by (simp add: no_negative_balance_upd)
      with res show ?thesis
        unfolding nb(1) Transfer_run [OF False na funds nb(2) ids]
        by (auto dest!: balances_nonneg_SaveAccount split: outcome.splits option.splits)
    qed
  qed
qed

lemma perform_no_negative:
  "no_negative_balance (heap w) \<Longrightarrow> perform F r w = Return (e, w') \<Longrightarrow>
   no_negative_balance (heap w')"
  by (cases r) (auto intro: Deposit_no_negative Withdraw_no_negative Transfer_no_negative)

lemma perform_all_no_negative:
  "no_negative_balance (heap w) \<Longrightarrow> perform_all F rs w = Some w' \<Longrightarrow>
   no_negative_balance (heap w')"
proof (induction rs arbitrary: w)
  case Nil
  then show ?case by simp
next
  case (Cons r rs)
  from Cons.prems(2) obtain w1 where r: "perform F r w = Return (None, w1)"
    and rs: "perform_all F rs w1 = Some w'"
    by (auto split: outcome.splits option.splits)
  from Cons.prems(1) r have "no_negative_balance (heap w1)"
    by (rule perform_no_negative)
  from Cons.IH [OF this rs] show ?case .
qed

section \<open>The records an operation appends\<close>

text \<open>
  A successful operation appends one record to the bound account, and a transfer
  one more to the target. The identifier of the record is \<^verbatim>\<open>TX\<close> and the reading of the
  clock at the first \<^verbatim>\<open>time.Now()\<close> of the operation; the identifier of the target's
  record comes from the third reading.
\<close>

lemma Deposit_appends:
  assumes res: "Deposit F s amount w = Return (None, w')"
    and d: "deref (heap w) (account s) = Some x"
  shows "\<exists>x' tx. deref (heap w') (account s) = Some x' \<and>
    Transactions x' = Transactions x @ [tx] \<and>
    Transaction.ID tx = ''TX'' @ Sprintf_d (UnixNano (now w (ticks w)))"
proof -
  from d obtain n where na: "account s = Addr n" "heap w n = Some x"
    by (auto simp: deref_def split: ptr.splits)
  have v: "\<not> fle amount f0" using res by (auto simp: Deposit_def)
  from res show ?thesis
    unfolding Deposit_run [OF v na] using na
    by (auto simp: SaveAccount_def deref_def split: outcome.splits)
qed

lemma Withdraw_appends:
  assumes res: "Withdraw F s amount w = Return (None, w')"
    and d: "deref (heap w) (account s) = Some x"
  shows "\<exists>x' tx. deref (heap w') (account s) = Some x' \<and>
    Transactions x' = Transactions x @ [tx] \<and>
    Transaction.ID tx = ''TX'' @ Sprintf_d (UnixNano (now w (ticks w)))"
proof -
  from d obtain n where na: "account s = Addr n" "heap w n = Some x"
    by (auto simp: deref_def split: ptr.splits)
  have v: "\<not> fle amount f0" using res by (auto simp: Withdraw_def)
  have f: "\<not> flt (Balance x) amount" using res v d by (auto simp: Withdraw_def)
  from res show ?thesis
    unfolding Withdraw_run [OF v na f] using na
    by (auto simp: SaveAccount_def deref_def split: outcome.splits)
qed

lemma Transfer_appends:
  assumes T: "Transfer F s to amount w = Return (None, w')"
    and dx: "deref (heap w) (account s) = Some x"
    and dy: "deref (heap w) to = Some y"
  shows "\<exists>x' y' tx ty.
      deref (heap w') (account s) = Some x' \<and> deref (heap w') to = Some y' \<and>
      Transactions x' = Transactions x @ [tx] \<and> Transactions y' = Transactions y @ [ty] \<and>
      Transaction.ID tx = ''TX'' @ Sprintf_d (UnixNano (now w (ticks w))) \<and>
      Transaction.ID ty = ''TX'' @ Sprintf_d (UnixNano (now w (Suc (Suc (ticks w)))))"
proof -
  from dx obtain na where na: "account s = Addr na" "heap w na = Some x"
    by (auto simp: deref_def split: ptr.splits)
  from dy obtain nb where nb: "to = Addr nb" "heap w nb = Some y"
    by (auto simp: deref_def split: ptr.splits)
  have v1: "\<not> fle amount f0"
    using T by (auto simp: Transfer_def)
  have v2: "\<not> flt (Balance x) amount"
    using T v1 dx by (auto simp: Transfer_def)
  have v3: "Account.ID x \<noteq> Account.ID y"
    using T v1 v2 dx dy by (auto simp: Transfer_def)
  with na nb have ne: "na \<noteq> nb" by auto
  from T show ?thesis
    unfolding nb(1) Transfer_run [OF v1 na v2 nb(2) v3]
    using ne na
    by (auto simp: SaveAccount_def deref_def split: outcome.splits option.splits)
qed

lemma perform_appends:
  assumes "perform F r w = Return (None, w')"
    and "deref (heap w) (request_account r) = Some x"
  shows "\<exists>x' tx. deref (heap w') (request_account r) = Some x' \<and>
    Transactions x' = Transactions x @ [tx] \<and>
    Transaction.ID tx = ''TX'' @ Sprintf_d (UnixNano (now w (ticks w)))"
proof (cases r)
  case (ReqDeposit s amount)
  with assms Deposit_appends [of F s amount w w' x] show ?thesis by simp
next
  case (ReqWithdraw s amount)
  with assms Withdraw_appends [of F s amount w w' x] show ?thesis by simp
next
  case (ReqTransfer s to amount)
  with assms have T: "Transfer F s to amount w = Return (None, w')"
    and dx: "deref (heap w) (account s) = Some x" by simp_all
  then obtain y where dy: "deref (heap w) to = Some y"
    by (cases "deref (heap w) to") (auto simp: Transfer_def split: if_splits)
  from Transfer_appends [OF T dx dy] ReqTransfer show ?thesis by auto
qed

section \<open>Facts about the example worlds\<close>

lemma heap0_simps: "heap0 10 = Some acc_A" "heap0 20 = Some acc_B"
  by (simp_all add: heap0_def)

lemma svc_A_simps: "account svc_A = Addr 10" "storage svc_A = MemoryStorage_SaveAccount"
  by (simp_all add: svc_A_def NewAccountService_def)

lemma f40_pos: "\<not> fle f40 f0"
  by (simp add: f40_def f0_def mag_def)

lemma f0_lt_f40: "flt f0 f40"
  by (simp add: f40_def f0_def mag_def)

lemma f100_pos: "\<not> fle f100 f0"
  by (simp add: f100_def f0_def mag_def)

lemma f100_ge_f40: "\<not> flt f100 f40"
  by (simp add: f100_def f40_def mag_def)

lemma f100_lt_f1000: "flt f100 f1000"
  by (simp add: f100_def f1000_def mag_def)

lemma f60_lt_f1000: "flt f60 f1000"
  by (simp add: f60_def f1000_def mag_def)

lemma f100_nonneg: "fle f0 f100"
  by (simp add: f100_def f0_def mag_def)

lemma f1000_pos: "\<not> fle f1000 f0"
  by (simp add: f1000_def f0_def mag_def)

lemma fminus1_neg: "fle fminus1 f0"
  by (simp add: fminus1_def f0_def mag_def)

lemma f1_pos: "\<not> fle f1 f0"
  by (simp add: f1_def f0_def mag_def)

lemma f0_lt_f1: "flt f0 f1"
  by (simp add: f1_def f0_def mag_def)

lemma f100_ge_f1: "\<not> flt f100 f1"
  by (simp add: f100_def f1_def mag_def)

lemma f1_le_f100: "fle f1 f100"
  by (simp add: f100_def f1_def mag_def)

lemma f40_le_f100: "fle f40 f100"
  by (simp add: f100_def f40_def mag_def)

lemma f100_minus_f40: "fsub f100 f40 = f60"
proof -
  have "fadd (Num False 1029 0x9000000000000) (Num True 1028 0x4000000000000) =
    Num (int (mag 1028 0xE000000000000) < 0) 1028 0xE000000000000"
    by (rule fadd_exact) (simp_all add: mag_def)
  then show ?thesis
    by (simp add: fsub_def f100_def f40_def f60_def del: fadd.simps)
qed

lemma f0_plus_f40: "fadd f0 f40 = f40"
proof -
  have "fadd (Num False 0 0) (Num False 1028 0x4000000000000) =
    Num (int (mag 1028 0x4000000000000) < 0) 1028 0x4000000000000"
    by (rule fadd_exact) (simp_all add: mag_def)
  then show ?thesis
    by (simp add: f0_def f40_def del: fadd.simps)
qed

lemma f0_plus_f100: "fadd f0 f100 = f100"
proof -
  have "fadd (Num False 0 0) (Num False 1029 0x9000000000000) =
    Num (int (mag 1029 0x9000000000000) < 0) 1029 0x9000000000000"
    by (rule fadd_exact) (simp_all add: mag_def)
  then show ?thesis
    by (simp add: f0_def f100_def del: fadd.simps)
qed

lemma f100_plus_f40: "fadd f100 f40 = f140"
proof -
  have "fadd (Num False 1029 0x9000000000000) (Num False 1028 0x4000000000000) =
    Num (int (mag 1030 0x1800000000000) < 0) 1030 0x1800000000000"
    by (rule fadd_exact) (simp_all add: mag_def)
  then show ?thesis
    by (simp add: f100_def f40_def f140_def del: fadd.simps)
qed

lemma f100_minus_f1: "fsub f100 f1 = f99"
proof -
  have "fadd (Num False 1029 0x9000000000000) (Num True 1023 0) =
    Num (int (mag 1029 0x8C00000000000) < 0) 1029 0x8C00000000000"
    by (rule fadd_exact) (simp_all add: mag_def)
  then show ?thesis
    by (simp add: fsub_def f100_def f1_def f99_def del: fadd.simps)
qed

lemma f2p53_plus_f1: "fadd f2p53 f1 = f2p53"
  using round_tie_to_even by (simp add: f2p53_def f1_def del: fadd.simps)

lemma f2p53_plus_f1_exact: "ival f2p53 + ival f1 \<noteq> ival f2p53"
  by (simp add: f2p53_def f1_def mag_def)

lemma sums_exact:
  "ival f100 + ival f40 = ival f140" "ival f100 - ival f40 = ival f60"
  "ival f0 + ival f40 = ival f40"
  by (simp_all add: f0_def f40_def f60_def f100_def f140_def mag_def)

lemma Sprintf_d_1000: "Sprintf_d (UnixNano 1000) = ''1000''"
  by code_simp

lemma Sprintf_d_1002: "Sprintf_d (UnixNano 1002) = ''1002''"
  by code_simp

lemma Sprintf_d_1004: "Sprintf_d (UnixNano 1004) = ''1004''"
  by code_simp

lemma Transfer_world0:
  "Transfer fmt0 svc_A (Addr 20) f40 world0 =
     Return (None,
       world0\<lparr>heap := heap0
           (10 \<mapsto> acc_A\<lparr>Balance := fsub f100 f40,
              Transactions := [\<lparr>Transaction.ID = ''TX1000'', Type = ''TRANSFER'',
                Amount = f40, Timestamp = 1001,
                Message = msg_transfer_to @ ''ACC2'' @ msg_na @ ''0.00''\<rparr>]\<rparr>,
            20 \<mapsto> acc_B\<lparr>Balance := fadd f0 f40,
              Transactions := [\<lparr>Transaction.ID = ''TX1002'', Type = ''TRANSFER'',
                Amount = f40, Timestamp = 1003,
                Message = msg_transfer_from @ ''ACC1'' @ msg_na @ ''0.00''\<rparr>]\<rparr>),
          ticks := 4\<rparr>)"
proof -
  have b: "\<not> flt (Balance acc_A) f40" by (simp add: acc_A_def f100_ge_f40)
  have h: "heap world0 10 = Some acc_A" "heap world0 20 = Some acc_B"
    by (simp_all add: world0_def heap0_simps)
  have i: "Account.ID acc_A \<noteq> Account.ID acc_B" by (simp add: acc_A_def acc_B_def)
  show ?thesis
    unfolding Transfer_run [OF f40_pos svc_A_simps(1) h(1) b h(2) i]
    by (simp add: SaveAccount_def svc_A_simps MemoryStorage_SaveAccount_def deref_def
        world0_def acc_A_def acc_B_def accounts0_def fmt0_def Sprintf_d_1000 Sprintf_d_1002
        TransferTransaction_def fun_eq_iff)
qed

lemma Transfer_world0_values:
  "Transfer fmt0 svc_A (Addr 20) f40 world0 =
     Return (None,
       world0\<lparr>heap := heap0
           (10 \<mapsto> acc_A\<lparr>Balance := f60,
              Transactions := [\<lparr>Transaction.ID = ''TX1000'', Type = ''TRANSFER'',
                Amount = f40, Timestamp = 1001,
                Message = msg_transfer_to @ ''ACC2'' @ msg_na @ ''0.00''\<rparr>]\<rparr>,
            20 \<mapsto> acc_B\<lparr>Balance := f40,
              Transactions := [\<lparr>Transaction.ID = ''TX1002'', Type = ''TRANSFER'',
                Amount = f40, Timestamp = 1003,
                Message = msg_transfer_from @ ''ACC1'' @ msg_na @ ''0.00''\<rparr>]\<rparr>),
          ticks := 4\<rparr>)"
  using Transfer_world0 by (simp only: f100_minus_f40 f0_plus_f40)

lemma RejectingStorage_simps:
  "h n = Some a \<Longrightarrow> RejectingStorage bad (Addr n) h st =
     (if Account.ID a = bad then Return (Some (OtherError ''input/output error''), st)
      else Return (None, st))"
  by (simp add: RejectingStorage_def deref_def)

text \<open>
  On the stuck clock a transfer and two deposits made one after the other run as
  follows.
\<close>

lemma stuck_clock_runs:
  "Transfer fmt0 svc_A (Addr 20) f40 world_stuck =
     Return (None,
       world_stuck\<lparr>heap := heap0
           (10 \<mapsto> acc_A\<lparr>Balance := fsub f100 f40,
              Transactions := [\<lparr>Transaction.ID = ''TX1000'', Type = ''TRANSFER'',
                Amount = f40, Timestamp = 1000,
                Message = msg_transfer_to @ ''ACC2'' @ msg_na @ ''0.00''\<rparr>]\<rparr>,
            20 \<mapsto> acc_B\<lparr>Balance := fadd f0 f40,
              Transactions := [\<lparr>Transaction.ID = ''TX1000'', Type = ''TRANSFER'',
                Amount = f40, Timestamp = 1000,
                Message = msg_transfer_from @ ''ACC1'' @ msg_na @ ''0.00''\<rparr>]\<rparr>),
          ticks := 4\<rparr>) \<and>
   Deposit fmt0 svc_A f40 world_stuck =
     Return (None,
       world_stuck\<lparr>heap := heap0
           (10 \<mapsto> acc_A\<lparr>Balance := fadd f100 f40,
              Transactions := [\<lparr>Transaction.ID = ''TX1000'', Type = ''DEPOSIT'',
                Amount = f40, Timestamp = 1000, Message = msg_deposit @ ''0.00''\<rparr>]\<rparr>),
          ticks := 2\<rparr>) \<and>
   Deposit fmt0 svc_A f40
       (world_stuck\<lparr>heap := heap0
           (10 \<mapsto> acc_A\<lparr>Balance := fadd f100 f40,
              Transactions := [\<lparr>Transaction.ID = ''TX1000'', Type = ''DEPOSIT'',
                Amount = f40, Timestamp = 1000, Message = msg_deposit @ ''0.00''\<rparr>]\<rparr>),
          ticks := 2\<rparr>) =
     Return (None,
       world_stuck\<lparr>heap := heap0
           (10 \<mapsto> acc_A\<lparr>Balance := fadd (fadd f100 f40) f40,
              Transactions := [\<lparr>Transaction.ID = ''TX1000'', Type = ''DEPOSIT'',
                Amount = f40, Timestamp = 1000, Message = msg_deposit @ ''0.00''\<rparr>,
                \<lparr>Transaction.ID = ''TX1000'', Type = ''DEPOSIT'',
                Amount = f40, Timestamp = 1000, Message = msg_deposit @ ''0.00''\<rparr>]\<rparr>),
          ticks := 4\<rparr>)"
proof (intro conjI)
  have b: "\<not> flt (Balance acc_A) f40" by (simp add: acc_A_def f100_ge_f40)
  have h: "heap world_stuck 10 = Some acc_A" "heap world_stuck 20 = Some acc_B"
    by (simp_all add: world_stuck_def heap0_simps)
  have i: "Account.ID acc_A \<noteq> Account.ID acc_B" by (simp add: acc_A_def acc_B_def)
  show "Transfer fmt0 svc_A (Addr 20) f40 world_stuck =
     Return (None,
       world_stuck\<lparr>heap := heap0
           (10 \<mapsto> acc_A\<lparr>Balance := fsub f100 f40,
              Transactions := [\<lparr>Transaction.ID = ''TX1000'', Type = ''TRANSFER'',
                Amount = f40, Timestamp = 1000,
                Message = msg_transfer_to @ ''ACC2'' @ msg_na @ ''0.00''\<rparr>]\<rparr>,
            20 \<mapsto> acc_B\<lparr>Balance := fadd f0 f40,
              Transactions := [\<lparr>Transaction.ID = ''TX1000'', Type = ''TRANSFER'',
                Amount = f40, Timestamp = 1000,
                Message = msg_transfer_from @ ''ACC1'' @ msg_na @ ''0.00''\<rparr>]\<rparr>),
          ticks := 4\<rparr>)"
    unfolding Transfer_run [OF f40_pos svc_A_simps(1) h(1) b h(2) i]
    by (simp add: SaveAccount_def svc_A_simps MemoryStorage_SaveAccount_def deref_def
        world_stuck_def acc_A_def acc_B_def accounts0_def fmt0_def Sprintf_d_1000
        TransferTransaction_def fun_eq_iff)
  show "Deposit fmt0 svc_A f40 world_stuck =
     Return (None,
       world_stuck\<lparr>heap := heap0
           (10 \<mapsto> acc_A\<lparr>Balance := fadd f100 f40,
              Transactions := [\<lparr>Transaction.ID = ''TX1000'', Type = ''DEPOSIT'',
                Amount = f40, Timestamp = 1000, Message = msg_deposit @ ''0.00''\<rparr>]\<rparr>),
          ticks := 2\<rparr>)"
    unfolding Deposit_run [OF f40_pos svc_A_simps(1) h(1)]
    by (simp add: SaveAccount_def svc_A_simps MemoryStorage_SaveAccount_def deref_def
        world_stuck_def acc_A_def accounts0_def fmt0_def Sprintf_d_1000
        DepositTransaction_def fun_eq_iff)
  let ?a1 = "acc_A\<lparr>Balance := fadd f100 f40,
              Transactions := [\<lparr>Transaction.ID = ''TX1000'', Type = ''DEPOSIT'',
                Amount = f40, Timestamp = 1000, Message = msg_deposit @ ''0.00''\<rparr>]\<rparr>"
  let ?w1 = "world_stuck\<lparr>heap := heap0(10 \<mapsto> ?a1), ticks := 2\<rparr>"
  have h1: "heap ?w1 10 = Some ?a1" by simp
  show "Deposit fmt0 svc_A f40 ?w1 =
     Return (None,
       world_stuck\<lparr>heap := heap0
           (10 \<mapsto> acc_A\<lparr>Balance := fadd (fadd f100 f40) f40,
              Transactions := [\<lparr>Transaction.ID = ''TX1000'', Type = ''DEPOSIT'',
                Amount = f40, Timestamp = 1000, Message = msg_deposit @ ''0.00''\<rparr>,
                \<lparr>Transaction.ID = ''TX1000'', Type = ''DEPOSIT'',
                Amount = f40, Timestamp = 1000, Message = msg_deposit @ ''0.00''\<rparr>]\<rparr>),
          ticks := 4\<rparr>)"
    unfolding Deposit_run [OF f40_pos svc_A_simps(1) h1]
    by (simp add: SaveAccount_def svc_A_simps MemoryStorage_SaveAccount_def deref_def
        world_stuck_def acc_A_def accounts0_def fmt0_def Sprintf_d_1000
        DepositTransaction_def fun_eq_iff)
qed

text \<open>
  The scenario of the specification: an account A with balance 0 receives a deposit of
  100 and transfers 40 to an account B with balance 0. A then holds 60 and two records,
  B holds 40 and one record, and a withdrawal of 1000 from A is refused with
  \<^verbatim>\<open>InsufficientFunds\<close> and changes nothing.
\<close>

lemma scenario:
  "perform_all fmt0 [ReqDeposit svc_A f100, ReqTransfer svc_A (Addr 20) f40]
     (world0\<lparr>heap := heap0(10 \<mapsto> acc_A\<lparr>Balance := f0\<rparr>)\<rparr>) =
   Some (world0\<lparr>heap := heap0
           (10 \<mapsto> acc_A\<lparr>Balance := f60,
              Transactions := [
                \<lparr>Transaction.ID = ''TX1000'', Type = ''DEPOSIT'',
                  Amount = f100, Timestamp = 1001, Message = msg_deposit @ ''0.00''\<rparr>,
                \<lparr>Transaction.ID = ''TX1002'', Type = ''TRANSFER'',
                  Amount = f40, Timestamp = 1003,
                  Message = msg_transfer_to @ ''ACC2'' @ msg_na @ ''0.00''\<rparr>]\<rparr>,
            20 \<mapsto> acc_B\<lparr>Balance := f40,
              Transactions := [\<lparr>Transaction.ID = ''TX1004'', Type = ''TRANSFER'',
                Amount = f40, Timestamp = 1005,
                Message = msg_transfer_from @ ''ACC1'' @ msg_na @ ''0.00''\<rparr>]\<rparr>),
          ticks := 6\<rparr>) \<and>
   Withdraw fmt0 svc_A f1000
     (world0\<lparr>heap := heap0
           (10 \<mapsto> acc_A\<lparr>Balance := f60,
              Transactions := [
                \<lparr>Transaction.ID = ''TX1000'', Type = ''DEPOSIT'',
                  Amount = f100, Timestamp = 1001, Message = msg_deposit @ ''0.00''\<rparr>,
                \<lparr>Transaction.ID = ''TX1002'', Type = ''TRANSFER'',
                  Amount = f40, Timestamp = 1003,
                  Message = msg_transfer_to @ ''ACC2'' @ msg_na @ ''0.00''\<rparr>]\<rparr>,
            20 \<mapsto> acc_B\<lparr>Balance := f40,
              Transactions := [\<lparr>Transaction.ID = ''TX1004'', Type = ''TRANSFER'',
                Amount = f40, Timestamp = 1005,
                Message = msg_transfer_from @ ''ACC1'' @ msg_na @ ''0.00''\<rparr>]\<rparr>),
          ticks := 6\<rparr>) =
   Return (Some ErrInsufficientFunds,
      world0\<lparr>heap := heap0
           (10 \<mapsto> acc_A\<lparr>Balance := f60,
              Transactions := [
                \<lparr>Transaction.ID = ''TX1000'', Type = ''DEPOSIT'',
                  Amount = f100, Timestamp = 1001, Message = msg_deposit @ ''0.00''\<rparr>,
                \<lparr>Transaction.ID = ''TX1002'', Type = ''TRANSFER'',
                  Amount = f40, Timestamp = 1003,
                  Message = msg_transfer_to @ ''ACC2'' @ msg_na @ ''0.00''\<rparr>]\<rparr>,
            20 \<mapsto> acc_B\<lparr>Balance := f40,
              Transactions := [\<lparr>Transaction.ID = ''TX1004'', Type = ''TRANSFER'',
                Amount = f40, Timestamp = 1005,
                Message = msg_transfer_from @ ''ACC1'' @ msg_na @ ''0.00''\<rparr>]\<rparr>),
          ticks := 6\<rparr>)"
proof (intro conjI)
  let ?w0 = "world0\<lparr>heap := heap0(10 \<mapsto> acc_A\<lparr>Balance := f0\<rparr>)\<rparr>"
  let ?a1 = "acc_A\<lparr>Balance := f100,
              Transactions := [
                \<lparr>Transaction.ID = ''TX1000'', Type = ''DEPOSIT'',
                  Amount = f100, Timestamp = 1001, Message = msg_deposit @ ''0.00''\<rparr>]\<rparr>"
  let ?w1 = "world0\<lparr>heap := heap0(10 \<mapsto> ?a1), ticks := 2\<rparr>"
  let ?a2 = "acc_A\<lparr>Balance := f60,
              Transactions := [
                \<lparr>Transaction.ID = ''TX1000'', Type = ''DEPOSIT'',
                  Amount = f100, Timestamp = 1001, Message = msg_deposit @ ''0.00''\<rparr>,
                \<lparr>Transaction.ID = ''TX1002'', Type = ''TRANSFER'',
                  Amount = f40, Timestamp = 1003,
                  Message = msg_transfer_to @ ''ACC2'' @ msg_na @ ''0.00''\<rparr>]\<rparr>"
  let ?b2 = "acc_B\<lparr>Balance := f40,
              Transactions := [\<lparr>Transaction.ID = ''TX1004'', Type = ''TRANSFER'',
                Amount = f40, Timestamp = 1005,
                Message = msg_transfer_from @ ''ACC1'' @ msg_na @ ''0.00''\<rparr>]\<rparr>"
  let ?w2 = "world0\<lparr>heap := heap0(10 \<mapsto> ?a2, 20 \<mapsto> ?b2), ticks := 6\<rparr>"
  have h0: "heap ?w0 10 = Some (acc_A\<lparr>Balance := f0\<rparr>)" by simp
  have d: "Deposit fmt0 svc_A f100 ?w0 = Return (None, ?w1)"
    unfolding Deposit_run [OF f100_pos svc_A_simps(1) h0]
    by (simp add: SaveAccount_def svc_A_simps MemoryStorage_SaveAccount_def deref_def
        world0_def acc_A_def accounts0_def fmt0_def Sprintf_d_1000 DepositTransaction_def
        fun_eq_iff f0_plus_f100)
  have h1: "heap ?w1 10 = Some ?a1" "heap ?w1 20 = Some acc_B"
    by (simp_all add: heap0_simps)
  have b1: "\<not> flt (Balance ?a1) f40" by (simp add: f100_ge_f40)
  have i1: "Account.ID ?a1 \<noteq> Account.ID acc_B" by (simp add: acc_A_def acc_B_def)
  have t: "Transfer fmt0 svc_A (Addr 20) f40 ?w1 = Return (None, ?w2)"
    unfolding Transfer_run [OF f40_pos svc_A_simps(1) h1(1) b1 h1(2) i1]
    by (simp add: SaveAccount_def svc_A_simps MemoryStorage_SaveAccount_def deref_def
        world0_def acc_A_def acc_B_def accounts0_def fmt0_def Sprintf_d_1002 Sprintf_d_1004
        TransferTransaction_def fun_eq_iff f100_minus_f40 f0_plus_f40)
  show "perform_all fmt0 [ReqDeposit svc_A f100, ReqTransfer svc_A (Addr 20) f40] ?w0 = Some ?w2"
    by (simp add: d t)
  have h2: "deref (heap ?w2) (account svc_A) = Some ?a2"
    by (simp add: deref_def svc_A_simps)
  show "Withdraw fmt0 svc_A f1000 ?w2 = Return (Some ErrInsufficientFunds, ?w2)"
    using h2 by (simp add: Withdraw_def f1000_pos f60_lt_f1000)
qed

section \<open>The claims\<close>

text \<open>
  Claim C1. After every sequence of successful \<^verbatim>\<open>Deposit\<close>, \<^verbatim>\<open>Withdraw\<close> and
  \<^verbatim>\<open>Transfer\<close> operations from a state with balances \<open>\<ge> 0\<close>, every balance is \<open>\<ge> 0\<close>.
  The code breaks this on amounts that are not finite numbers, which the menu lets
  through (\<open>readAmount\<close> makes the same check as the engine). The check
  \<^verbatim>\<open>amount <= 0\<close> is false for a NaN: a \<^verbatim>\<open>Deposit\<close> of NaN on the balance 100 succeeds
  and leaves the balance NaN, which is not \<open>\<ge> 0\<close>. And \<open>+\<infinity>\<close> is a positive amount: its
  deposit succeeds and leaves the balance \<open>+\<infinity>\<close>, the check \<^verbatim>\<open>balance < amount\<close> then lets
  a \<^verbatim>\<open>Withdraw\<close> of \<open>+\<infinity>\<close> pass, and the balance \<open>\<infinity> - \<infinity>\<close> is NaN. (Under finite amounts
  the invariant holds: \<open>perform_all_keeps_nonneg\<close>.)
\<close>

theorem C1_deposit_NaN:
  "readAmount (NaN, None) = (NaN, None) \<and>
   readAmount (Infty False, None) = (Infty False, None) \<and>
   fle f0 (Balance acc_A) \<and>
   Deposit F svc_A NaN world0 =
     Return (None,
       world0\<lparr>heap := heap0(10 \<mapsto> acc_A\<lparr>Balance := NaN,
                 Transactions := [\<lparr>Transaction.ID = ''TX1000'', Type = ''DEPOSIT'',
                   Amount = NaN, Timestamp = 1001, Message = msg_deposit @ f2 F NaN\<rparr>]\<rparr>),
          ticks := 2\<rparr>) \<and>
   \<not> fle f0 NaN \<and>
   flt f0 (Infty False) \<and>
   Deposit F svc_A (Infty False) world0 =
     Return (None,
       world0\<lparr>heap := heap0(10 \<mapsto> acc_A\<lparr>Balance := Infty False,
                 Transactions := [\<lparr>Transaction.ID = ''TX1000'', Type = ''DEPOSIT'',
                   Amount = Infty False, Timestamp = 1001,
                   Message = msg_deposit @ f2 F (Infty False)\<rparr>]\<rparr>),
          ticks := 2\<rparr>) \<and>
   Withdraw F svc_A (Infty False)
       (world0\<lparr>heap := heap0(10 \<mapsto> acc_A\<lparr>Balance := Infty False,
                 Transactions := [\<lparr>Transaction.ID = ''TX1000'', Type = ''DEPOSIT'',
                   Amount = Infty False, Timestamp = 1001,
                   Message = msg_deposit @ f2 F (Infty False)\<rparr>]\<rparr>),
          ticks := 2\<rparr>) =
     Return (None,
       world0\<lparr>heap := heap0(10 \<mapsto> acc_A\<lparr>Balance := NaN,
                 Transactions := [\<lparr>Transaction.ID = ''TX1000'', Type = ''DEPOSIT'',
                   Amount = Infty False, Timestamp = 1001,
                   Message = msg_deposit @ f2 F (Infty False)\<rparr>,
                  \<lparr>Transaction.ID = ''TX1002'', Type = ''WITHDRAW'',
                   Amount = Infty False, Timestamp = 1003,
                   Message = msg_withdraw @ f2 F (Infty False)\<rparr>]\<rparr>),
          ticks := 4\<rparr>)"
proof (intro conjI)
  have n: "\<not> fle NaN f0" by simp
  have i: "\<not> fle (Infty False) f0" by (simp add: f0_def)
  have h: "heap world0 10 = Some acc_A"
    by (simp add: world0_def heap0_simps)
  show "readAmount (NaN, None) = (NaN, None)"
    by (simp add: readAmount_def)
  show "readAmount (Infty False, None) = (Infty False, None)"
    by (simp add: readAmount_def f0_def)
  show "fle f0 (Balance acc_A)" by (simp add: acc_A_def f100_nonneg)
  show "\<not> fle f0 NaN" by simp
  show "flt f0 (Infty False)" by (simp add: f0_def)
  show "Deposit F svc_A NaN world0 =
     Return (None,
       world0\<lparr>heap := heap0(10 \<mapsto> acc_A\<lparr>Balance := NaN,
                 Transactions := [\<lparr>Transaction.ID = ''TX1000'', Type = ''DEPOSIT'',
                   Amount = NaN, Timestamp = 1001, Message = msg_deposit @ f2 F NaN\<rparr>]\<rparr>),
          ticks := 2\<rparr>)"
    unfolding Deposit_run [OF n svc_A_simps(1) h]
    by (simp add: SaveAccount_def svc_A_simps MemoryStorage_SaveAccount_def deref_def
        world0_def acc_A_def accounts0_def Sprintf_d_1000 DepositTransaction_def fun_eq_iff)
  let ?a1 = "acc_A\<lparr>Balance := Infty False,
                 Transactions := [\<lparr>Transaction.ID = ''TX1000'', Type = ''DEPOSIT'',
                   Amount = Infty False, Timestamp = 1001,
                   Message = msg_deposit @ f2 F (Infty False)\<rparr>]\<rparr>"
  let ?w1 = "world0\<lparr>heap := heap0(10 \<mapsto> ?a1), ticks := 2\<rparr>"
  show "Deposit F svc_A (Infty False) world0 = Return (None, ?w1)"
    unfolding Deposit_run [OF i svc_A_simps(1) h]
    by (simp add: SaveAccount_def svc_A_simps MemoryStorage_SaveAccount_def deref_def
        world0_def acc_A_def accounts0_def Sprintf_d_1000 DepositTransaction_def fun_eq_iff
        f100_def)
  have h1: "heap ?w1 10 = Some ?a1" by simp
  have b1: "\<not> flt (Balance ?a1) (Infty False)" by simp
  show "Withdraw F svc_A (Infty False) ?w1 =
     Return (None,
       world0\<lparr>heap := heap0(10 \<mapsto> acc_A\<lparr>Balance := NaN,
                 Transactions := [\<lparr>Transaction.ID = ''TX1000'', Type = ''DEPOSIT'',
                   Amount = Infty False, Timestamp = 1001,
                   Message = msg_deposit @ f2 F (Infty False)\<rparr>,
                  \<lparr>Transaction.ID = ''TX1002'', Type = ''WITHDRAW'',
                   Amount = Infty False, Timestamp = 1003,
                   Message = msg_withdraw @ f2 F (Infty False)\<rparr>]\<rparr>),
          ticks := 4\<rparr>)"
    unfolding Withdraw_run [OF i svc_A_simps(1) h1 b1]
    by (simp add: SaveAccount_def svc_A_simps MemoryStorage_SaveAccount_def deref_def
        world0_def acc_A_def accounts0_def Sprintf_d_1002 WithdrawTransaction_def fun_eq_iff
        fsub_def)
qed

text \<open>
  Claim C2 (as amended). A successful \<^verbatim>\<open>Transfer\<close> of \<open>amount\<close> from the bound
  account \<open>x\<close> to the account \<open>y\<close> leaves the source with the float64 difference
  \<open>Balance x - amount\<close> and the target with the float64 sum \<open>Balance y + amount\<close>. For
  finite numbers these are the exact difference and the exact sum whenever those are
  float64 values, and otherwise a float64 value at most half a unit of the last place
  away (finite while within the range). Each of the two transaction lists is the old one
  with exactly one record appended, whose amount is \<open>amount\<close>. A transfer succeeds only
  between accounts with distinct identifiers, and for finite numbers only when
  \<open>amount > 0\<close> and \<open>Balance x \<ge> amount\<close>.
\<close>

theorem C2_transfer:
  assumes T: "Transfer F s to amount w = Return (None, w')"
    and dx: "deref (heap w) (account s) = Some x"
    and dy: "deref (heap w) to = Some y"
  shows "\<exists>x' y' tx ty.
      deref (heap w') (account s) = Some x' \<and> deref (heap w') to = Some y' \<and>
      Balance x' = fsub (Balance x) amount \<and> Balance y' = fadd (Balance y) amount \<and>
      Transactions x' = Transactions x @ [tx] \<and> Amount tx = amount \<and>
      Transactions y' = Transactions y @ [ty] \<and> Amount ty = amount \<and>
      Account.ID x \<noteq> Account.ID y \<and> \<not> fle amount f0 \<and> \<not> flt (Balance x) amount \<and>
      (is_number amount \<and> is_number (Balance x) \<longrightarrow>
         flt f0 amount \<and> fle amount (Balance x) \<and>
         rounded (ival (Balance x) - ival amount) (Balance x')) \<and>
      (is_number amount \<and> is_number (Balance y) \<longrightarrow>
         rounded (ival (Balance y) + ival amount) (Balance y'))"
proof -
  from dx obtain na where na: "account s = Addr na" "heap w na = Some x"
    by (auto simp: deref_def split: ptr.splits)
  from dy obtain nb where nb: "to = Addr nb" "heap w nb = Some y"
    by (auto simp: deref_def split: ptr.splits)
  have v1: "\<not> fle amount f0"
    using T by (auto simp: Transfer_def)
  have v2: "\<not> flt (Balance x) amount"
    using T v1 dx by (auto simp: Transfer_def)
  have v3: "Account.ID x \<noteq> Account.ID y"
    using T v1 v2 dx dy by (auto simp: Transfer_def)
  with na nb have ne: "na \<noteq> nb" by auto
  have c: "is_number amount \<and> is_number (Balance x) \<longrightarrow> flt f0 amount \<and> fle amount (Balance x)"
    using number_checks [OF _ _ v1 v2] by blast
  from T show ?thesis
    unfolding nb(1) Transfer_run [OF v1 na v2 nb(2) v3]
    using ne v1 v2 v3 na c
    by (auto simp: SaveAccount_def deref_def fadd_rounded fsub_rounded
        split: outcome.splits option.splits)
qed

theorem C2_transfer_witness:
  "Transfer fmt0 svc_A (Addr 20) f40 world0 =
     Return (None,
       world0\<lparr>heap := heap0
           (10 \<mapsto> acc_A\<lparr>Balance := f60,
              Transactions := [\<lparr>Transaction.ID = ''TX1000'', Type = ''TRANSFER'',
                Amount = f40, Timestamp = 1001,
                Message = msg_transfer_to @ ''ACC2'' @ msg_na @ ''0.00''\<rparr>]\<rparr>,
            20 \<mapsto> acc_B\<lparr>Balance := f40,
              Transactions := [\<lparr>Transaction.ID = ''TX1002'', Type = ''TRANSFER'',
                Amount = f40, Timestamp = 1003,
                Message = msg_transfer_from @ ''ACC1'' @ msg_na @ ''0.00''\<rparr>]\<rparr>),
          ticks := 4\<rparr>) \<and>
   deref (heap world0) (account svc_A) = Some acc_A \<and>
   deref (heap world0) (Addr 20) = Some acc_B \<and>
   Balance acc_A = f100 \<and> Balance acc_B = f0 \<and>
   Account.ID acc_A \<noteq> Account.ID acc_B \<and> flt f0 f40 \<and> fle f40 f100 \<and>
   rounded (ival f100 - ival f40) f60 \<and> rounded (ival f0 + ival f40) f40 \<and>
   ival f60 = ival f100 - ival f40 \<and> ival f40 = ival f0 + ival f40"
proof -
  have d: "deref (heap world0) (account svc_A) = Some acc_A"
    "deref (heap world0) (Addr 20) = Some acc_B"
    by (simp_all add: deref_def svc_A_simps world0_def heap0_simps)
  have b: "Balance acc_A = f100" "Balance acc_B = f0" by (simp_all add: acc_A_def acc_B_def)
  have n: "is_number f100" "is_number f40" "is_number f0"
    by (simp_all add: f100_def f40_def f0_def)
  from C2_transfer [OF Transfer_world0_values d]
  have "Account.ID acc_A \<noteq> Account.ID acc_B \<and> flt f0 f40 \<and> fle f40 f100 \<and>
    rounded (ival f100 - ival f40) f60 \<and> rounded (ival f0 + ival f40) f40"
    by (auto simp: b n deref_def svc_A_simps)
  then show ?thesis
    by (simp add: Transfer_world0_values d b sums_exact)
qed

text \<open>
  Claim C2 as stated, a target balance of \<open>By + A\<close>, fails where the sum is not a
  float64 value: a transfer of 1 from a balance of 100 to a balance of \<open>2 ^ 53\<close> succeeds,
  debits the source to 99 and leaves the target at \<open>2 ^ 53\<close>.
\<close>

theorem C2_counterexample:
  "deref (heap (world0\<lparr>heap := heap0(40 \<mapsto> acc_D)\<rparr>)) (account svc_A) = Some acc_A \<and>
   deref (heap (world0\<lparr>heap := heap0(40 \<mapsto> acc_D)\<rparr>)) (Addr 40) = Some acc_D \<and>
   Balance acc_A = f100 \<and> Balance acc_D = f2p53 \<and>
   Account.ID acc_A \<noteq> Account.ID acc_D \<and> flt f0 f1 \<and> fle f1 f100 \<and>
   Transfer fmt0 svc_A (Addr 40) f1 (world0\<lparr>heap := heap0(40 \<mapsto> acc_D)\<rparr>) =
     Return (None,
       world0\<lparr>heap := heap0
           (10 \<mapsto> acc_A\<lparr>Balance := f99,
              Transactions := [\<lparr>Transaction.ID = ''TX1000'', Type = ''TRANSFER'',
                Amount = f1, Timestamp = 1001,
                Message = msg_transfer_to @ ''ACC4'' @ msg_na @ ''0.00''\<rparr>]\<rparr>,
            40 \<mapsto> acc_D\<lparr>Balance := f2p53,
              Transactions := [\<lparr>Transaction.ID = ''TX1002'', Type = ''TRANSFER'',
                Amount = f1, Timestamp = 1003,
                Message = msg_transfer_from @ ''ACC1'' @ msg_na @ ''0.00''\<rparr>]\<rparr>),
          backend := accounts0(''ACC4'' \<mapsto> Addr 40), ticks := 4\<rparr>) \<and>
   ival f2p53 \<noteq> ival f2p53 + ival f1"
proof -
  let ?w = "world0\<lparr>heap := heap0(40 \<mapsto> acc_D)\<rparr>"
  have h: "heap ?w 10 = Some acc_A" "heap ?w 40 = Some acc_D"
    by (simp_all add: world0_def heap0_simps)
  have b: "Balance acc_A = f100" "Balance acc_D = f2p53" by (simp_all add: acc_A_def acc_D_def)
  have f: "\<not> flt (Balance acc_A) f1" by (simp add: b f100_ge_f1)
  have i: "Account.ID acc_A \<noteq> Account.ID acc_D" by (simp add: acc_A_def acc_D_def)
  have t: "Transfer fmt0 svc_A (Addr 40) f1 ?w =
     Return (None,
       world0\<lparr>heap := heap0
           (10 \<mapsto> acc_A\<lparr>Balance := f99,
              Transactions := [\<lparr>Transaction.ID = ''TX1000'', Type = ''TRANSFER'',
                Amount = f1, Timestamp = 1001,
                Message = msg_transfer_to @ ''ACC4'' @ msg_na @ ''0.00''\<rparr>]\<rparr>,
            40 \<mapsto> acc_D\<lparr>Balance := f2p53,
              Transactions := [\<lparr>Transaction.ID = ''TX1002'', Type = ''TRANSFER'',
                Amount = f1, Timestamp = 1003,
                Message = msg_transfer_from @ ''ACC1'' @ msg_na @ ''0.00''\<rparr>]\<rparr>),
          backend := accounts0(''ACC4'' \<mapsto> Addr 40), ticks := 4\<rparr>)"
    unfolding Transfer_run [OF f1_pos svc_A_simps(1) h(1) f h(2) i]
    by (simp add: SaveAccount_def svc_A_simps MemoryStorage_SaveAccount_def deref_def b
        f100_minus_f1 f2p53_plus_f1 world0_def acc_A_def acc_D_def accounts0_def fmt0_def
        Sprintf_d_1000 Sprintf_d_1002 TransferTransaction_def fun_eq_iff fun_upd_twist)
  from f2p53_plus_f1_exact have "ival f2p53 \<noteq> ival f2p53 + ival f1" by simp
  with t show ?thesis
    by (simp add: deref_def svc_A_simps heap0_simps b i f0_lt_f1 f1_le_f100)
qed




text \<open>
  Claim C4. \<^verbatim>\<open>Deposit\<close> with an amount \<open>\<le> 0\<close> returns \<^verbatim>\<open>InvalidAmount\<close>, and
  \<^verbatim>\<open>Withdraw\<close> with an amount above the balance returns \<^verbatim>\<open>InsufficientFunds\<close>; in both
  failures the world, and so the balance and the transaction list of the bound account,
  is unchanged. The account states are those of the data model, with no balance below 0,
  which every operation preserves (\<open>perform_no_negative\<close>).
\<close>

theorem C4_failed_validation:
  "(fle amount f0 \<longrightarrow> Deposit F s amount w = Return (Some ErrInvalidAmount, w)) \<and>
   (deref (heap w) (account s) = Some a \<and> \<not> flt (Balance a) f0 \<and> flt (Balance a) amount \<longrightarrow>
      Withdraw F s amount w = Return (Some ErrInsufficientFunds, w))"
  by (auto simp: Deposit_def Withdraw_def dest: above_not_neg_is_positive)

theorem C4_failed_validation_witness:
  "fle fminus1 f0 \<and> Deposit fmt0 svc_A fminus1 world0 = Return (Some ErrInvalidAmount, world0) \<and>
   deref (heap world0) (account svc_A) = Some acc_A \<and> \<not> flt (Balance acc_A) f0 \<and>
   flt (Balance acc_A) f1000 \<and>
   Withdraw fmt0 svc_A f1000 world0 = Return (Some ErrInsufficientFunds, world0)"
proof -
  have d: "deref (heap world0) (account svc_A) = Some acc_A"
    by (simp add: deref_def svc_A_simps world0_def heap0_simps)
  have b: "Balance acc_A = f100" by (simp add: acc_A_def)
  have n: "\<not> flt f100 f0" by (simp add: f100_def f0_def mag_def)
  from C4_failed_validation [of fminus1 fmt0 svc_A world0 acc_A]
    C4_failed_validation [of f1000 fmt0 svc_A world0 acc_A]
  show ?thesis
    by (simp add: d b n fminus1_neg f100_lt_f1000)
qed

text \<open>
  Claim C5. When the checks of a \<^verbatim>\<open>Transfer\<close> pass, saving the source succeeds
  and saving the target fails with the error \<open>e\<close>, the transfer returns \<open>e\<close>, and the
  heap \<open>h'\<close> it leaves holds both changes: the source debited, the target credited, and
  one record appended to each. Nothing is rolled back.
\<close>

theorem C5_transfer_target_save_fails:
  assumes "\<not> fle amount f0" and "account s = Addr na" and "heap w na = Some a"
    and "\<not> flt (Balance a) amount" and "heap w nb = Some b"
    and "Account.ID a \<noteq> Account.ID b"
    and "h' = (heap w)
          (na \<mapsto> a\<lparr>Balance := fsub (Balance a) amount,
              Transactions := Transactions a @
                [\<lparr>Transaction.ID = ''TX'' @ Sprintf_d (UnixNano (now w (ticks w))),
                  Type = TransferTransaction, Amount = amount,
                  Timestamp = now w (Suc (ticks w)),
                  Message = msg_transfer_to @ Account.ID b @ msg_na @ f2 F amount\<rparr>]\<rparr>,
           nb \<mapsto> b\<lparr>Balance := fadd (Balance b) amount,
              Transactions := Transactions b @
                [\<lparr>Transaction.ID = ''TX'' @ Sprintf_d (UnixNano (now w (Suc (Suc (ticks w))))),
                  Type = TransferTransaction, Amount = amount,
                  Timestamp = now w (Suc (Suc (Suc (ticks w)))),
                  Message = msg_transfer_from @ Account.ID a @ msg_na @ f2 F amount\<rparr>]\<rparr>)"
    and "storage s (Addr na) h' (backend w) = Return (None, st1)"
    and "storage s (Addr nb) h' st1 = Return (Some e, st2)"
  shows "Transfer F s (Addr nb) amount w =
    Return (Some e, w\<lparr>heap := h', ticks := Suc (Suc (Suc (Suc (ticks w)))), backend := st2\<rparr>)"
  unfolding Transfer_run [OF assms(1-6)] using assms(7-9)
  by (simp add: SaveAccount_def)

theorem C5_transfer_target_save_fails_witness:
  "\<not> fle f40 f0 \<and> heap world_rej 10 = Some acc_A \<and> \<not> flt (Balance acc_A) f40 \<and>
   heap world_rej 20 = Some acc_B \<and> Account.ID acc_A \<noteq> Account.ID acc_B \<and>
   Transfer fmt0 (NewAccountService (Addr 10) (RejectingStorage ''ACC2'')) (Addr 20) f40 world_rej =
     Return (Some (OtherError ''input/output error''),
       world_rej\<lparr>heap := heap0
           (10 \<mapsto> acc_A\<lparr>Balance := fsub f100 f40,
              Transactions := [\<lparr>Transaction.ID = ''TX1000'', Type = ''TRANSFER'',
                Amount = f40, Timestamp = 1001,
                Message = msg_transfer_to @ ''ACC2'' @ msg_na @ ''0.00''\<rparr>]\<rparr>,
            20 \<mapsto> acc_B\<lparr>Balance := fadd f0 f40,
              Transactions := [\<lparr>Transaction.ID = ''TX1002'', Type = ''TRANSFER'',
                Amount = f40, Timestamp = 1003,
                Message = msg_transfer_from @ ''ACC1'' @ msg_na @ ''0.00''\<rparr>]\<rparr>),
          ticks := 4\<rparr>)"
proof -
  let ?s = "NewAccountService (Addr 10) (RejectingStorage ''ACC2'')"
  have s: "account ?s = Addr 10" "storage ?s = RejectingStorage ''ACC2''"
    by (simp_all add: NewAccountService_def)
  have b: "\<not> flt (Balance acc_A) f40" by (simp add: acc_A_def f100_ge_f40)
  have h: "heap world_rej 10 = Some acc_A" "heap world_rej 20 = Some acc_B"
    by (simp_all add: world_rej_def heap0_simps)
  have i: "Account.ID acc_A \<noteq> Account.ID acc_B" by (simp add: acc_A_def acc_B_def)
  have s1: "storage ?s (Addr 10) ((heap world_rej)(10 \<mapsto> x, 20 \<mapsto> y)) (backend world_rej) = Return (None, ())"
    if "Account.ID x = ''ACC1''" for x y
    using that by (simp add: s RejectingStorage_simps)
  have s2: "storage ?s (Addr 20) ((heap world_rej)(10 \<mapsto> x, 20 \<mapsto> y)) () =
      Return (Some (OtherError ''input/output error''), ())"
    if "Account.ID y = ''ACC2''" for x y
    using that by (simp add: s RejectingStorage_simps)
  from C5_transfer_target_save_fails [OF f40_pos s(1) h(1) b h(2) i refl s1 s2, of fmt0]
  show ?thesis
    by (simp add: f40_pos f100_ge_f40 i heap0_simps acc_A_def acc_B_def world_rej_def fmt0_def
        Sprintf_d_1000 Sprintf_d_1002 TransferTransaction_def)
qed

text \<open>
  Claim C6 (as amended). For an amount above 0, \<^verbatim>\<open>Deposit\<close> replaces the balance
  of the bound account by the float64 sum of the balance and the amount: for finite
  numbers the exact sum whenever that is a float64 value, and otherwise a float64 value at
  most half a unit of the last place away (finite while within the range). It appends
  exactly one record of type \<^verbatim>\<open>DEPOSIT\<close> with that amount, calls the backend's
  \<^verbatim>\<open>SaveAccount\<close> on the changed account, and, when that call succeeds, returns no
  error.
\<close>

theorem C6_deposit:
  assumes "flt f0 amount" and "account s = Addr n" and "heap w n = Some a"
    and "storage s (Addr n)
          ((heap w)(n \<mapsto> a\<lparr>Balance := fadd (Balance a) amount,
              Transactions := Transactions a @
                [\<lparr>Transaction.ID = ''TX'' @ Sprintf_d (UnixNano (now w (ticks w))),
                  Type = DepositTransaction, Amount = amount,
                  Timestamp = now w (Suc (ticks w)),
                  Message = msg_deposit @ f2 F amount\<rparr>]\<rparr>))
          (backend w) = Return (None, st)"
  shows "Deposit F s amount w =
    Return (None,
      w\<lparr>heap := (heap w)(n \<mapsto> a\<lparr>Balance := fadd (Balance a) amount,
              Transactions := Transactions a @
                [\<lparr>Transaction.ID = ''TX'' @ Sprintf_d (UnixNano (now w (ticks w))),
                  Type = DepositTransaction, Amount = amount,
                  Timestamp = now w (Suc (ticks w)),
                  Message = msg_deposit @ f2 F amount\<rparr>]\<rparr>),
         ticks := Suc (Suc (ticks w)), backend := st\<rparr>) \<and>
    (is_number (Balance a) \<and> is_number amount \<longrightarrow>
       rounded (ival (Balance a) + ival amount) (fadd (Balance a) amount))"
proof -
  from assms(1) have "\<not> fle amount f0" by (rule flt_not_fle)
  from Deposit_run [OF this assms(2,3)] assms(4) show ?thesis
    by (simp add: SaveAccount_def fadd_rounded)
qed

theorem C6_deposit_witness:
  "flt f0 f40 \<and> account svc_A = Addr 10 \<and> heap world0 10 = Some acc_A \<and>
   Deposit fmt0 svc_A f40 world0 =
     Return (None,
       world0\<lparr>heap := heap0(10 \<mapsto> acc_A\<lparr>Balance := f140,
                 Transactions := [\<lparr>Transaction.ID = ''TX1000'', Type = ''DEPOSIT'',
                   Amount = f40, Timestamp = 1001, Message = msg_deposit @ ''0.00''\<rparr>]\<rparr>),
          ticks := 2\<rparr>) \<and>
   is_number (Balance acc_A) \<and> is_number f40 \<and>
   rounded (ival f100 + ival f40) f140 \<and> ival f140 = ival f100 + ival f40"
proof -
  have h: "heap world0 10 = Some acc_A"
    by (simp add: world0_def heap0_simps)
  have b: "Balance acc_A = f100" by (simp add: acc_A_def)
  have sv: "storage svc_A (Addr 10)
          ((heap world0)(10 \<mapsto> acc_A\<lparr>Balance := fadd (Balance acc_A) f40,
              Transactions := Transactions acc_A @
                [\<lparr>Transaction.ID = ''TX'' @ Sprintf_d (UnixNano (now world0 (ticks world0))),
                  Type = DepositTransaction, Amount = f40,
                  Timestamp = now world0 (Suc (ticks world0)),
                  Message = msg_deposit @ f2 fmt0 f40\<rparr>]\<rparr>))
          (backend world0) = Return (None, accounts0)"
    by (simp add: svc_A_simps MemoryStorage_SaveAccount_def deref_def world0_def acc_A_def
        accounts0_def fun_eq_iff)
  have n: "is_number f100" "is_number f40" by (simp_all add: f100_def f40_def)
  from C6_deposit [OF f0_lt_f40 svc_A_simps(1) h sv]
  have "Deposit fmt0 svc_A f40 world0 =
     Return (None,
       world0\<lparr>heap := heap0(10 \<mapsto> acc_A\<lparr>Balance := f140,
                 Transactions := [\<lparr>Transaction.ID = ''TX1000'', Type = ''DEPOSIT'',
                   Amount = f40, Timestamp = 1001, Message = msg_deposit @ ''0.00''\<rparr>]\<rparr>),
          ticks := 2\<rparr>)"
    and "rounded (ival f100 + ival f40) f140"
    by (simp_all add: b n f100_plus_f40 world0_def acc_A_def fmt0_def
        Sprintf_d_1000 DepositTransaction_def)
  then show ?thesis
    by (simp add: f0_lt_f40 svc_A_simps h b n sums_exact)
qed

text \<open>
  Claim C6 as stated, a balance incremented by exactly the amount, fails where the sum
  is not a float64 value: a deposit of 1 on the balance \<open>2 ^ 53\<close> succeeds, appends its
  record and leaves the balance at \<open>2 ^ 53\<close>.
\<close>

theorem C6_counterexample:
  "flt f0 f1 \<and>
   deref (heap (world0\<lparr>heap := heap0(40 \<mapsto> acc_D)\<rparr>))
     (account (NewAccountService (Addr 40) MemoryStorage_SaveAccount)) = Some acc_D \<and>
   Balance acc_D = f2p53 \<and>
   Deposit fmt0 (NewAccountService (Addr 40) MemoryStorage_SaveAccount) f1
       (world0\<lparr>heap := heap0(40 \<mapsto> acc_D)\<rparr>) =
     Return (None,
       world0\<lparr>heap := heap0(40 \<mapsto> acc_D\<lparr>Balance := f2p53,
                 Transactions := [\<lparr>Transaction.ID = ''TX1000'', Type = ''DEPOSIT'',
                   Amount = f1, Timestamp = 1001, Message = msg_deposit @ ''0.00''\<rparr>]\<rparr>),
          backend := accounts0(''ACC4'' \<mapsto> Addr 40), ticks := 2\<rparr>) \<and>
   ival f2p53 \<noteq> ival f2p53 + ival f1"
proof -
  let ?s = "NewAccountService (Addr 40) MemoryStorage_SaveAccount"
  let ?w = "world0\<lparr>heap := heap0(40 \<mapsto> acc_D)\<rparr>"
  have s: "account ?s = Addr 40" "storage ?s = MemoryStorage_SaveAccount"
    by (simp_all add: NewAccountService_def)
  have h: "heap ?w 40 = Some acc_D" by simp
  have b: "Balance acc_D = f2p53" by (simp add: acc_D_def)
  have d: "Deposit fmt0 ?s f1 ?w =
     Return (None,
       world0\<lparr>heap := heap0(40 \<mapsto> acc_D\<lparr>Balance := f2p53,
                 Transactions := [\<lparr>Transaction.ID = ''TX1000'', Type = ''DEPOSIT'',
                   Amount = f1, Timestamp = 1001, Message = msg_deposit @ ''0.00''\<rparr>]\<rparr>),
          backend := accounts0(''ACC4'' \<mapsto> Addr 40), ticks := 2\<rparr>)"
    unfolding Deposit_run [OF f1_pos s(1) h]
    by (simp add: SaveAccount_def s MemoryStorage_SaveAccount_def deref_def b f2p53_plus_f1
        world0_def acc_D_def fmt0_def Sprintf_d_1000 DepositTransaction_def)
  from f2p53_plus_f1_exact have "ival f2p53 \<noteq> ival f2p53 + ival f1" by simp
  with d show ?thesis
    by (simp add: f0_lt_f1 deref_def s b)
qed

text \<open>
  Claim C7. Transaction identifiers are unique: two records never share one. The
  code does not ensure it. Every identifier is \<^verbatim>\<open>TX\<close> followed by the \<^verbatim>\<open>UnixNano\<close>
  reading of the clock taken when the record is built, so the two records of a transfer,
  and the records of any two operations, share an identifier exactly when their readings
  agree; on the stuck clock the two records of one transfer are both \<^verbatim>\<open>TX1000\<close>, and so
  are the records of two deposits made one after the other.
\<close>

theorem C7_identifiers_from_clock:
  "(Transfer F s to amount w = Return (None, w') \<and>
    deref (heap w) (account s) = Some x \<and> deref (heap w) to = Some y \<longrightarrow>
    (\<exists>x' y' tx ty.
      deref (heap w') (account s) = Some x' \<and> deref (heap w') to = Some y' \<and>
      Transactions x' = Transactions x @ [tx] \<and> Transactions y' = Transactions y @ [ty] \<and>
      Transaction.ID tx = ''TX'' @ Sprintf_d (UnixNano (now w (ticks w))) \<and>
      Transaction.ID ty = ''TX'' @ Sprintf_d (UnixNano (now w (Suc (Suc (ticks w))))) \<and>
      (Transaction.ID tx = Transaction.ID ty) =
        (UnixNano (now w (ticks w)) = UnixNano (now w (Suc (Suc (ticks w))))))) \<and>
   (perform F r1 w1 = Return (None, w1') \<and> perform F r2 w2 = Return (None, w2') \<and>
    deref (heap w1) (request_account r1) = Some x1 \<and>
    deref (heap w2) (request_account r2) = Some x2 \<longrightarrow>
    (\<exists>x1' x2' t1 t2.
      deref (heap w1') (request_account r1) = Some x1' \<and>
      deref (heap w2') (request_account r2) = Some x2' \<and>
      Transactions x1' = Transactions x1 @ [t1] \<and> Transactions x2' = Transactions x2 @ [t2] \<and>
      Transaction.ID t1 = ''TX'' @ Sprintf_d (UnixNano (now w1 (ticks w1))) \<and>
      Transaction.ID t2 = ''TX'' @ Sprintf_d (UnixNano (now w2 (ticks w2))) \<and>
      (Transaction.ID t1 = Transaction.ID t2) =
        (UnixNano (now w1 (ticks w1)) = UnixNano (now w2 (ticks w2)))))"
proof (intro conjI impI)
  assume "Transfer F s to amount w = Return (None, w') \<and>
    deref (heap w) (account s) = Some x \<and> deref (heap w) to = Some y"
  then have T: "Transfer F s to amount w = Return (None, w')"
    and dx: "deref (heap w) (account s) = Some x" and dy: "deref (heap w) to = Some y"
    by simp_all
  from Transfer_appends [OF T dx dy] obtain x' y' tx ty where
    r: "deref (heap w') (account s) = Some x'" "deref (heap w') to = Some y'"
      "Transactions x' = Transactions x @ [tx]" "Transactions y' = Transactions y @ [ty]"
      "Transaction.ID tx = ''TX'' @ Sprintf_d (UnixNano (now w (ticks w)))"
      "Transaction.ID ty = ''TX'' @ Sprintf_d (UnixNano (now w (Suc (Suc (ticks w)))))"
    by blast
  from r(5,6) have "(Transaction.ID tx = Transaction.ID ty) =
        (UnixNano (now w (ticks w)) = UnixNano (now w (Suc (Suc (ticks w)))))"
    by (auto dest: Sprintf_d_inj)
  with r show "\<exists>x' y' tx ty.
      deref (heap w') (account s) = Some x' \<and> deref (heap w') to = Some y' \<and>
      Transactions x' = Transactions x @ [tx] \<and> Transactions y' = Transactions y @ [ty] \<and>
      Transaction.ID tx = ''TX'' @ Sprintf_d (UnixNano (now w (ticks w))) \<and>
      Transaction.ID ty = ''TX'' @ Sprintf_d (UnixNano (now w (Suc (Suc (ticks w))))) \<and>
      (Transaction.ID tx = Transaction.ID ty) =
        (UnixNano (now w (ticks w)) = UnixNano (now w (Suc (Suc (ticks w)))))"
    by blast
next
  assume "perform F r1 w1 = Return (None, w1') \<and> perform F r2 w2 = Return (None, w2') \<and>
    deref (heap w1) (request_account r1) = Some x1 \<and>
    deref (heap w2) (request_account r2) = Some x2"
  then have p: "perform F r1 w1 = Return (None, w1')" "perform F r2 w2 = Return (None, w2')"
    and d: "deref (heap w1) (request_account r1) = Some x1"
      "deref (heap w2) (request_account r2) = Some x2"
    by simp_all
  from perform_appends [OF p(1) d(1)] obtain x1' t1 where
    a: "deref (heap w1') (request_account r1) = Some x1'"
      "Transactions x1' = Transactions x1 @ [t1]"
      "Transaction.ID t1 = ''TX'' @ Sprintf_d (UnixNano (now w1 (ticks w1)))"
    by blast
  from perform_appends [OF p(2) d(2)] obtain x2' t2 where
    b: "deref (heap w2') (request_account r2) = Some x2'"
      "Transactions x2' = Transactions x2 @ [t2]"
      "Transaction.ID t2 = ''TX'' @ Sprintf_d (UnixNano (now w2 (ticks w2)))"
    by blast
  from a(3) b(3) have "(Transaction.ID t1 = Transaction.ID t2) =
        (UnixNano (now w1 (ticks w1)) = UnixNano (now w2 (ticks w2)))"
    by (auto dest: Sprintf_d_inj)
  with a b show "\<exists>x1' x2' t1 t2.
      deref (heap w1') (request_account r1) = Some x1' \<and>
      deref (heap w2') (request_account r2) = Some x2' \<and>
      Transactions x1' = Transactions x1 @ [t1] \<and> Transactions x2' = Transactions x2 @ [t2] \<and>
      Transaction.ID t1 = ''TX'' @ Sprintf_d (UnixNano (now w1 (ticks w1))) \<and>
      Transaction.ID t2 = ''TX'' @ Sprintf_d (UnixNano (now w2 (ticks w2))) \<and>
      (Transaction.ID t1 = Transaction.ID t2) =
        (UnixNano (now w1 (ticks w1)) = UnixNano (now w2 (ticks w2)))"
    by blast
qed

theorem C7_identifiers_from_clock_witness:
  "deref (heap world_stuck) (account svc_A) = Some acc_A \<and>
   deref (heap world_stuck) (Addr 20) = Some acc_B \<and>
   now world_stuck (ticks world_stuck) = 1000 \<and>
   now world_stuck (Suc (Suc (ticks world_stuck))) = 1000 \<and>
   (\<exists>w' x' y' tx ty.
      Transfer fmt0 svc_A (Addr 20) f40 world_stuck = Return (None, w') \<and>
      deref (heap w') (account svc_A) = Some x' \<and> deref (heap w') (Addr 20) = Some y' \<and>
      Transactions x' = Transactions acc_A @ [tx] \<and>
      Transactions y' = Transactions acc_B @ [ty] \<and>
      Transaction.ID tx = ''TX1000'' \<and> Transaction.ID ty = ''TX1000'') \<and>
   (\<exists>w1 w2 x1 x2 t1 t2.
      perform fmt0 (ReqDeposit svc_A f40) world_stuck = Return (None, w1) \<and>
      perform fmt0 (ReqDeposit svc_A f40) w1 = Return (None, w2) \<and>
      now w1 (ticks w1) = 1000 \<and>
      deref (heap w1) (account svc_A) = Some x1 \<and> deref (heap w2) (account svc_A) = Some x2 \<and>
      Transactions x1 = Transactions acc_A @ [t1] \<and> Transactions x2 = Transactions x1 @ [t2] \<and>
      Transaction.ID t1 = ''TX1000'' \<and> Transaction.ID t2 = ''TX1000'')"
proof -
  let ?wt = "world_stuck\<lparr>heap := heap0
           (10 \<mapsto> acc_A\<lparr>Balance := fsub f100 f40,
              Transactions := [\<lparr>Transaction.ID = ''TX1000'', Type = ''TRANSFER'',
                Amount = f40, Timestamp = 1000,
                Message = msg_transfer_to @ ''ACC2'' @ msg_na @ ''0.00''\<rparr>]\<rparr>,
            20 \<mapsto> acc_B\<lparr>Balance := fadd f0 f40,
              Transactions := [\<lparr>Transaction.ID = ''TX1000'', Type = ''TRANSFER'',
                Amount = f40, Timestamp = 1000,
                Message = msg_transfer_from @ ''ACC1'' @ msg_na @ ''0.00''\<rparr>]\<rparr>),
          ticks := 4\<rparr>"
  let ?w1 = "world_stuck\<lparr>heap := heap0
           (10 \<mapsto> acc_A\<lparr>Balance := fadd f100 f40,
              Transactions := [\<lparr>Transaction.ID = ''TX1000'', Type = ''DEPOSIT'',
                Amount = f40, Timestamp = 1000, Message = msg_deposit @ ''0.00''\<rparr>]\<rparr>),
          ticks := 2\<rparr>"
  let ?w2 = "world_stuck\<lparr>heap := heap0
           (10 \<mapsto> acc_A\<lparr>Balance := fadd (fadd f100 f40) f40,
              Transactions := [\<lparr>Transaction.ID = ''TX1000'', Type = ''DEPOSIT'',
                Amount = f40, Timestamp = 1000, Message = msg_deposit @ ''0.00''\<rparr>,
                \<lparr>Transaction.ID = ''TX1000'', Type = ''DEPOSIT'',
                Amount = f40, Timestamp = 1000, Message = msg_deposit @ ''0.00''\<rparr>]\<rparr>),
          ticks := 4\<rparr>"
  from stuck_clock_runs have T: "Transfer fmt0 svc_A (Addr 20) f40 world_stuck = Return (None, ?wt)"
    and D1: "perform fmt0 (ReqDeposit svc_A f40) world_stuck = Return (None, ?w1)"
    and D2: "perform fmt0 (ReqDeposit svc_A f40) ?w1 = Return (None, ?w2)"
    by simp_all
  have d: "deref (heap world_stuck) (account svc_A) = Some acc_A"
    "deref (heap world_stuck) (Addr 20) = Some acc_B"
    by (simp_all add: deref_def svc_A_simps world_stuck_def heap0_simps)
  have c: "now world_stuck k = 1000" "now ?w1 k = 1000" for k
    by (simp_all add: world_stuck_def)
  let ?x1 = "acc_A\<lparr>Balance := fadd f100 f40,
              Transactions := [\<lparr>Transaction.ID = ''TX1000'', Type = ''DEPOSIT'',
                Amount = f40, Timestamp = 1000, Message = msg_deposit @ ''0.00''\<rparr>]\<rparr>"
  have d1: "deref (heap ?w1) (request_account (ReqDeposit svc_A f40)) = Some ?x1"
    by (simp add: deref_def svc_A_simps)
  have d0: "deref (heap world_stuck) (request_account (ReqDeposit svc_A f40)) = Some acc_A"
    by (simp add: d)
  from C7_identifiers_from_clock [of fmt0 svc_A "Addr 20" f40 world_stuck ?wt acc_A acc_B]
    T d obtain x' y' tx ty where
    a: "deref (heap ?wt) (account svc_A) = Some x'" "deref (heap ?wt) (Addr 20) = Some y'"
      "Transactions x' = Transactions acc_A @ [tx]" "Transactions y' = Transactions acc_B @ [ty]"
      "Transaction.ID tx = ''TX'' @ Sprintf_d (UnixNano (now world_stuck (ticks world_stuck)))"
      "Transaction.ID ty = ''TX'' @ Sprintf_d (UnixNano (now world_stuck (Suc (Suc (ticks world_stuck)))))"
    by blast
  from a(5,6) have ids: "Transaction.ID tx = ''TX1000''" "Transaction.ID ty = ''TX1000''"
    by (simp_all add: c Sprintf_d_1000)
  from C7_identifiers_from_clock [of fmt0 _ _ _ _ _ _ _ "ReqDeposit svc_A f40" world_stuck ?w1
      "ReqDeposit svc_A f40" ?w1 ?w2 acc_A ?x1]
    D1 D2 d0 d1 obtain x1 x2 t1 t2 where
    b: "deref (heap ?w1) (request_account (ReqDeposit svc_A f40)) = Some x1"
      "deref (heap ?w2) (request_account (ReqDeposit svc_A f40)) = Some x2"
      "Transactions x1 = Transactions acc_A @ [t1]" "Transactions x2 = Transactions ?x1 @ [t2]"
      "Transaction.ID t1 = ''TX'' @ Sprintf_d (UnixNano (now world_stuck (ticks world_stuck)))"
      "Transaction.ID t2 = ''TX'' @ Sprintf_d (UnixNano (now ?w1 (ticks ?w1)))"
    by blast
  from b(5,6) have ids2: "Transaction.ID t1 = ''TX1000''" "Transaction.ID t2 = ''TX1000''"
    by (simp_all only: c Sprintf_d_1000 append.simps)
  from b(1) d1 have x1: "x1 = ?x1" by simp
  have part1: "\<exists>w' x' y' tx ty.
      Transfer fmt0 svc_A (Addr 20) f40 world_stuck = Return (None, w') \<and>
      deref (heap w') (account svc_A) = Some x' \<and> deref (heap w') (Addr 20) = Some y' \<and>
      Transactions x' = Transactions acc_A @ [tx] \<and>
      Transactions y' = Transactions acc_B @ [ty] \<and>
      Transaction.ID tx = ''TX1000'' \<and> Transaction.ID ty = ''TX1000''"
    using T a(1-4) ids by blast
  have part2: "\<exists>w1 w2 x1 x2 t1 t2.
      perform fmt0 (ReqDeposit svc_A f40) world_stuck = Return (None, w1) \<and>
      perform fmt0 (ReqDeposit svc_A f40) w1 = Return (None, w2) \<and>
      now w1 (ticks w1) = 1000 \<and>
      deref (heap w1) (account svc_A) = Some x1 \<and> deref (heap w2) (account svc_A) = Some x2 \<and>
      Transactions x1 = Transactions acc_A @ [t1] \<and> Transactions x2 = Transactions x1 @ [t2] \<and>
      Transaction.ID t1 = ''TX1000'' \<and> Transaction.ID t2 = ''TX1000''"
  proof (intro exI conjI)
    show "perform fmt0 (ReqDeposit svc_A f40) world_stuck = Return (None, ?w1)" by (fact D1)
    show "perform fmt0 (ReqDeposit svc_A f40) ?w1 = Return (None, ?w2)" by (fact D2)
    show "now ?w1 (ticks ?w1) = 1000" by (fact c(2))
    from b(1) show "deref (heap ?w1) (account svc_A) = Some x1" by simp
    from b(2) show "deref (heap ?w2) (account svc_A) = Some x2" by simp
    show "Transactions x1 = Transactions acc_A @ [t1]" by (fact b(3))
    from b(4) x1 show "Transactions x2 = Transactions x1 @ [t2]" by simp
    show "Transaction.ID t1 = ''TX1000''" by (fact ids2(1))
    show "Transaction.ID t2 = ''TX1000''" by (fact ids2(2))
  qed
  from d c(1) part1 part2 show ?thesis by blast
qed

text \<open>
  Claim C8. \<^verbatim>\<open>GetStatement\<close> returns the fixed empty-history message when the
  bound account has no transaction. Otherwise it returns the title, a rule, the owner
  line, the identifier line and a rule, then one line per transaction, in the order of
  the list, each \<^verbatim>\<open>timestamp | type | amount | message\<close>, then a rule and the line of the
  current balance. The world it returns is the world it was given.
\<close>

theorem C8_statement:
  assumes "deref (heap w) (account s) = Some a"
  shows "GetStatement F s w =
    Return (if Transactions a = [] then msg_empty_history
            else stmt_title @ stmt_rule @
                 stmt_owner @ OwnerName a @ [CHR 0x0A] @
                 stmt_id @ Account.ID a @ [CHR 0x0A] @
                 stmt_rule @
                 concat (map (\<lambda>tx. layout F (Timestamp tx) @ '' | '' @ Type tx @ '' | '' @
                                  f2 F (Amount tx) @ '' | '' @ Message tx @ [CHR 0x0A])
                             (Transactions a)) @
                 stmt_rule @
                 stmt_balance @ f2 F (Balance a) @ [CHR 0x0A],
            w)"
proof -
  have "tx_line F = (\<lambda>tx. layout F (Timestamp tx) @ '' | '' @ Type tx @ '' | '' @
                                  f2 F (Amount tx) @ '' | '' @ Message tx @ [CHR 0x0A])"
    by (rule ext) (simp add: tx_line_def)
  with assms show ?thesis
    by (simp add: GetStatement_def write_transactions_concat Let_def)
qed

theorem C8_statement_witness:
  "deref (heap (world0\<lparr>heap := heap0(30 \<mapsto> acc_C)\<rparr>))
     (account (NewAccountService (Addr 30) MemoryStorage_SaveAccount)) = Some acc_C \<and>
   GetStatement fmt0 (NewAccountService (Addr 30) MemoryStorage_SaveAccount)
     (world0\<lparr>heap := heap0(30 \<mapsto> acc_C)\<rparr>) =
     Return (stmt_title @ stmt_rule @
             stmt_owner @ ''C'' @ [CHR 0x0A] @
             stmt_id @ ''ACC3'' @ [CHR 0x0A] @
             stmt_rule @
             ''2006-01-02 15:04:05 | DEPOSIT | 0.00 | first'' @ [CHR 0x0A] @
             ''2006-01-02 15:04:05 | WITHDRAW | 0.00 | second'' @ [CHR 0x0A] @
             stmt_rule @
             stmt_balance @ ''0.00'' @ [CHR 0x0A],
             world0\<lparr>heap := heap0(30 \<mapsto> acc_C)\<rparr>)"
proof -
  let ?s = "NewAccountService (Addr 30) MemoryStorage_SaveAccount"
  let ?w = "world0\<lparr>heap := heap0(30 \<mapsto> acc_C)\<rparr>"
  have d: "deref (heap ?w) (account ?s) = Some acc_C"
    by (simp add: deref_def NewAccountService_def)
  from C8_statement [OF d, of fmt0] show ?thesis
    by (simp add: deref_def NewAccountService_def acc_C_def tx_1_def tx_2_def fmt0_def
        DepositTransaction_def WithdrawTransaction_def)
qed

text \<open>
  Claim C9. Saving an account in the \<^verbatim>\<open>MemoryStorage\<close> and loading it by its
  identifier returns the pointer that was saved, hence the account with the balance and
  the transaction list it had when saved; saving the same account again leaves the stored
  entry as it is.
\<close>

theorem C9_memory_storage_roundtrip:
  assumes "deref h p = Some a"
  shows "MemoryStorage_SaveAccount p h accounts = Return (None, accounts(Account.ID a \<mapsto> p)) \<and>
    MemoryStorage_LoadAccount (Account.ID a) (accounts(Account.ID a \<mapsto> p)) = (p, None) \<and>
    deref h (fst (MemoryStorage_LoadAccount (Account.ID a) (accounts(Account.ID a \<mapsto> p)))) = Some a \<and>
    MemoryStorage_SaveAccount p h (accounts(Account.ID a \<mapsto> p)) =
      Return (None, accounts(Account.ID a \<mapsto> p))"
  using assms by (simp add: MemoryStorage_SaveAccount_def MemoryStorage_LoadAccount_def)

theorem C9_memory_storage_roundtrip_witness:
  "deref heap0 (Addr 10) = Some acc_A \<and>
   MemoryStorage_SaveAccount (Addr 10) heap0 NewMemoryStorage =
     Return (None, NewMemoryStorage(''ACC1'' \<mapsto> Addr 10)) \<and>
   MemoryStorage_LoadAccount ''ACC1'' (NewMemoryStorage(''ACC1'' \<mapsto> Addr 10)) = (Addr 10, None) \<and>
   MemoryStorage_SaveAccount (Addr 10) heap0 (NewMemoryStorage(''ACC1'' \<mapsto> Addr 10)) =
     Return (None, NewMemoryStorage(''ACC1'' \<mapsto> Addr 10))"
proof -
  have d: "deref heap0 (Addr 10) = Some acc_A"
    by (simp add: deref_def heap0_simps)
  have i: "Account.ID acc_A = ''ACC1''" by (simp add: acc_A_def)
  from C9_memory_storage_roundtrip [OF d, of NewMemoryStorage] show ?thesis
    by (simp add: d i)
qed

text \<open>
  Claim C10. \<^verbatim>\<open>Deposit\<close> and \<^verbatim>\<open>Withdraw\<close> change the bound account before they
  call \<^verbatim>\<open>SaveAccount\<close>: the backend is called on the heap that already holds the new
  balance and the appended record. When that call returns an error \<open>e\<close>, the operation
  returns \<open>e\<close> and the heap keeps the change.
\<close>

theorem C10_single_account_save_fails:
  assumes "account s = Addr n" and "heap w n = Some a" and "\<not> fle amount f0"
  shows
   "(storage s (Addr n)
       ((heap w)(n \<mapsto> a\<lparr>Balance := fadd (Balance a) amount,
           Transactions := Transactions a @
             [\<lparr>Transaction.ID = ''TX'' @ Sprintf_d (UnixNano (now w (ticks w))),
               Type = DepositTransaction, Amount = amount,
               Timestamp = now w (Suc (ticks w)),
               Message = msg_deposit @ f2 F amount\<rparr>]\<rparr>))
       (backend w) = Return (Some e, st) \<longrightarrow>
     Deposit F s amount w =
       Return (Some e,
         w\<lparr>heap := (heap w)(n \<mapsto> a\<lparr>Balance := fadd (Balance a) amount,
             Transactions := Transactions a @
               [\<lparr>Transaction.ID = ''TX'' @ Sprintf_d (UnixNano (now w (ticks w))),
                 Type = DepositTransaction, Amount = amount,
                 Timestamp = now w (Suc (ticks w)),
                 Message = msg_deposit @ f2 F amount\<rparr>]\<rparr>),
            ticks := Suc (Suc (ticks w)), backend := st\<rparr>)) \<and>
    (\<not> flt (Balance a) amount \<and>
     storage s (Addr n)
       ((heap w)(n \<mapsto> a\<lparr>Balance := fsub (Balance a) amount,
           Transactions := Transactions a @
             [\<lparr>Transaction.ID = ''TX'' @ Sprintf_d (UnixNano (now w (ticks w))),
               Type = WithdrawTransaction, Amount = amount,
               Timestamp = now w (Suc (ticks w)),
               Message = msg_withdraw @ f2 F amount\<rparr>]\<rparr>))
       (backend w) = Return (Some e, st) \<longrightarrow>
     Withdraw F s amount w =
       Return (Some e,
         w\<lparr>heap := (heap w)(n \<mapsto> a\<lparr>Balance := fsub (Balance a) amount,
             Transactions := Transactions a @
               [\<lparr>Transaction.ID = ''TX'' @ Sprintf_d (UnixNano (now w (ticks w))),
                 Type = WithdrawTransaction, Amount = amount,
                 Timestamp = now w (Suc (ticks w)),
                 Message = msg_withdraw @ f2 F amount\<rparr>]\<rparr>),
            ticks := Suc (Suc (ticks w)), backend := st\<rparr>))"
proof (intro conjI impI)
  assume "storage s (Addr n)
       ((heap w)(n \<mapsto> a\<lparr>Balance := fadd (Balance a) amount,
           Transactions := Transactions a @
             [\<lparr>Transaction.ID = ''TX'' @ Sprintf_d (UnixNano (now w (ticks w))),
               Type = DepositTransaction, Amount = amount,
               Timestamp = now w (Suc (ticks w)),
               Message = msg_deposit @ f2 F amount\<rparr>]\<rparr>))
       (backend w) = Return (Some e, st)"
  then show "Deposit F s amount w =
       Return (Some e,
         w\<lparr>heap := (heap w)(n \<mapsto> a\<lparr>Balance := fadd (Balance a) amount,
             Transactions := Transactions a @
               [\<lparr>Transaction.ID = ''TX'' @ Sprintf_d (UnixNano (now w (ticks w))),
                 Type = DepositTransaction, Amount = amount,
                 Timestamp = now w (Suc (ticks w)),
                 Message = msg_deposit @ f2 F amount\<rparr>]\<rparr>),
            ticks := Suc (Suc (ticks w)), backend := st\<rparr>)"
    unfolding Deposit_run [OF assms(3,1,2)] by (simp add: SaveAccount_def)
next
  assume "\<not> flt (Balance a) amount \<and>
     storage s (Addr n)
       ((heap w)(n \<mapsto> a\<lparr>Balance := fsub (Balance a) amount,
           Transactions := Transactions a @
             [\<lparr>Transaction.ID = ''TX'' @ Sprintf_d (UnixNano (now w (ticks w))),
               Type = WithdrawTransaction, Amount = amount,
               Timestamp = now w (Suc (ticks w)),
               Message = msg_withdraw @ f2 F amount\<rparr>]\<rparr>))
       (backend w) = Return (Some e, st)"
  then show "Withdraw F s amount w =
       Return (Some e,
         w\<lparr>heap := (heap w)(n \<mapsto> a\<lparr>Balance := fsub (Balance a) amount,
             Transactions := Transactions a @
               [\<lparr>Transaction.ID = ''TX'' @ Sprintf_d (UnixNano (now w (ticks w))),
                 Type = WithdrawTransaction, Amount = amount,
                 Timestamp = now w (Suc (ticks w)),
                 Message = msg_withdraw @ f2 F amount\<rparr>]\<rparr>),
            ticks := Suc (Suc (ticks w)), backend := st\<rparr>)"
    using Withdraw_run [OF assms(3,1,2), of F] by (simp add: SaveAccount_def)
qed

theorem C10_single_account_save_fails_witness:
  "heap world_rej 10 = Some acc_A \<and> \<not> fle f40 f0 \<and> \<not> flt (Balance acc_A) f40 \<and>
   Deposit fmt0 (NewAccountService (Addr 10) (RejectingStorage ''ACC1'')) f40 world_rej =
     Return (Some (OtherError ''input/output error''),
       world_rej\<lparr>heap := heap0(10 \<mapsto> acc_A\<lparr>Balance := fadd f100 f40,
                 Transactions := [\<lparr>Transaction.ID = ''TX1000'', Type = ''DEPOSIT'',
                   Amount = f40, Timestamp = 1001, Message = msg_deposit @ ''0.00''\<rparr>]\<rparr>),
          ticks := 2\<rparr>) \<and>
   Withdraw fmt0 (NewAccountService (Addr 10) (RejectingStorage ''ACC1'')) f40 world_rej =
     Return (Some (OtherError ''input/output error''),
       world_rej\<lparr>heap := heap0(10 \<mapsto> acc_A\<lparr>Balance := fsub f100 f40,
                 Transactions := [\<lparr>Transaction.ID = ''TX1000'', Type = ''WITHDRAW'',
                   Amount = f40, Timestamp = 1001, Message = msg_withdraw @ ''0.00''\<rparr>]\<rparr>),
          ticks := 2\<rparr>)"
proof -
  let ?s = "NewAccountService (Addr 10) (RejectingStorage ''ACC1'')"
  have s: "account ?s = Addr 10" "storage ?s = RejectingStorage ''ACC1''"
    by (simp_all add: NewAccountService_def)
  have h: "heap world_rej 10 = Some acc_A"
    by (simp add: world_rej_def heap0_simps)
  from C10_single_account_save_fails [OF s(1) h f40_pos, of fmt0 "OtherError ''input/output error''" "()"]
  show ?thesis
    by (simp add: s RejectingStorage_simps f40_pos f100_ge_f40 heap0_simps acc_A_def
        world_rej_def fmt0_def Sprintf_d_1000 DepositTransaction_def WithdrawTransaction_def)
qed

end
